theory Spec2Isabelle
  imports Complex_Main "HOL-Library.Word"
begin

unbundle bit_operations_syntax

section \<open>Vocal biomarker service: the embedding\<close>

text \<open>
  The development follows \<^verbatim>\<open>packages/biomarker-service/biomarker_service.py\<close>.
  Python floats are modelled as \<^typ>\<open>real\<close>, Python's unbounded integers as \<^typ>\<open>int\<close>,
  lengths and counters as \<^typ>\<open>nat\<close>, one element of a \<^verbatim>\<open>bytes\<close> object as an
  \<^typ>\<open>8 word\<close>, a \<^verbatim>\<open>dict\<close> keyed by session id as a map, and the insertion-ordered
  feature \<^verbatim>\<open>dict\<close> as an association list.
\<close>

subsection \<open>AudioBuffer\<close>

record AudioBuffer =
  sample_rate :: nat
  buffer_size :: nat
  buffer :: "real list"
  frame_count :: nat

text \<open>
  \<^verbatim>\<open>deque(maxlen=n).extend(xs)\<close> appends on the right and, once the deque holds
  \<^verbatim>\<open>n\<close> elements, discards from the left: what remains is the last \<^verbatim>\<open>n\<close>
  elements of the old contents followed by \<^verbatim>\<open>xs\<close>.
\<close>

definition deque_extend :: "nat \<Rightarrow> 'a list \<Rightarrow> 'a list \<Rightarrow> 'a list" where
  "deque_extend maxlen d xs = (let ys = d @ xs in drop (length ys - maxlen) ys)"

text \<open>
  \<^verbatim>\<open>AudioBuffer.__init__\<close>; \<^verbatim>\<open>int(sample_rate * buffer_duration)\<close> truncates, which on
  the non-negative products that a deque length admits is the floor.
\<close>

definition AudioBuffer_init :: "nat \<Rightarrow> real \<Rightarrow> AudioBuffer" where
  "AudioBuffer_init sr buffer_duration =
     \<lparr>sample_rate = sr, buffer_size = nat \<lfloor>real sr * buffer_duration\<rfloor>,
      buffer = [], frame_count = 0\<rparr>"

text \<open>The defaults of the constructor: 8000 Hz and 3 seconds.\<close>

definition AudioBuffer_new :: AudioBuffer where
  "AudioBuffer_new = AudioBuffer_init 8000 3"

definition add_frame :: "AudioBuffer \<Rightarrow> real list \<Rightarrow> AudioBuffer \<times> bool" where
  "add_frame ab audio_data =
     (let ab' = ab\<lparr>buffer := deque_extend (buffer_size ab) (buffer ab) audio_data,
                   frame_count := frame_count ab + length audio_data\<rparr>
      in (ab', buffer_size ab' \<le> length (buffer ab')))"

definition get_buffer :: "AudioBuffer \<Rightarrow> real list" where
  "get_buffer ab = buffer ab"

definition clear :: "AudioBuffer \<Rightarrow> AudioBuffer" where
  "clear ab = ab\<lparr>buffer := [], frame_count := 0\<rparr>"

subsection \<open>decode_mulaw\<close>

definition MULAW_BIAS :: int where
  "MULAW_BIAS = 0x84"

text \<open>
  The body of the loop of \<^verbatim>\<open>decode_mulaw\<close> for one byte. Iterating over \<^verbatim>\<open>bytes\<close>
  yields integers in 0..255, so the arithmetic is on \<^typ>\<open>int\<close>; the result is the value
  appended to \<^verbatim>\<open>decoded\<close>.
\<close>

definition decode_mulaw_byte :: "8 word \<Rightarrow> real" where
  "decode_mulaw_byte b =
     (let byte = uint b XOR 0xFF;
          sign = byte AND 0x80;
          exponent = drop_bit 4 (byte AND 0x70);
          mantissa = byte AND 0x0F;
          decoded_val =
            (if exponent = 0 then push_bit 1 mantissa + MULAW_BIAS
             else push_bit (nat (exponent - 1)) (push_bit 1 mantissa + MULAW_BIAS));
          decoded_val = (if sign \<noteq> 0 then - decoded_val else decoded_val)
      in real_of_int decoded_val / 32768)"

text \<open>
  \<^verbatim>\<open>decode_mulaw\<close>: the loop over the input. Nothing in the loop body can raise on a
  \<^verbatim>\<open>bytes\<close> argument, so the \<^verbatim>\<open>except\<close> branch (which returns the empty array) has no
  input that reaches it; the conversion to \<^verbatim>\<open>float32\<close> is exact on these values
  (integers below \<open>2\<^sup>1\<^sup>4\<close> divided by \<open>2\<^sup>1\<^sup>5\<close>).
\<close>

definition decode_mulaw :: "8 word list \<Rightarrow> real list" where
  "decode_mulaw encoded_data = map decode_mulaw_byte encoded_data"

subsection \<open>Feature dictionaries\<close>

text \<open>
  A Python \<^verbatim>\<open>dict\<close> keeps its keys in insertion order: assigning to a key that is
  present replaces the value where it stands, assigning to a new key appends it.
  \<^verbatim>\<open>list(features.values())\<close> reads the values in that order.
\<close>

type_synonym features = "(string \<times> real) list"

fun dict_set :: "'k \<Rightarrow> 'v \<Rightarrow> ('k \<times> 'v) list \<Rightarrow> ('k \<times> 'v) list" where
  "dict_set k v [] = [(k, v)]"
| "dict_set k v (p # d) = (if fst p = k then (k, v) # d else p # dict_set k v d)"

text \<open>\<^verbatim>\<open>d.update({...})\<close> and a dict display: the items are assigned from left to right.\<close>

definition dict_update :: "('k \<times> 'v) list \<Rightarrow> ('k \<times> 'v) list \<Rightarrow> ('k \<times> 'v) list" where
  "dict_update d items = fold (\<lambda>kv. dict_set (fst kv) (snd kv)) items d"

definition dict_keys :: "('k \<times> 'v) list \<Rightarrow> 'k list" where
  "dict_keys d = map fst d"

definition dict_values :: "('k \<times> 'v) list \<Rightarrow> 'v list" where
  "dict_values d = map snd d"

text \<open>\<^verbatim>\<open>str(i)\<close> for a non-negative integer, as the f-strings of the MFCC keys use it.\<close>

fun str_nat :: "nat \<Rightarrow> string" where
  "str_nat i = (if i < 10 then [''0123456789'' ! i]
                else str_nat (i div 10) @ [''0123456789'' ! (i mod 10)])"

declare str_nat.simps [simp del]

definition mfcc_key :: "nat \<Rightarrow> string \<Rightarrow> string" where
  "mfcc_key i suffix = ''mfcc_'' @ str_nat i @ suffix"

subsection \<open>FeatureExtractor\<close>

text \<open>
  The signal-processing library is outside the repository. Its calls are parameters of
  the model: each \<^verbatim>\<open>librosa\<close> call returns its array or raises (\<open>None\<close>), and the
  \<^verbatim>\<open>numpy\<close> reductions applied to those arrays are total functions of the array.
\<close>

record backend =
  yin :: "real list \<Rightarrow> real list option"
  spectral_centroid :: "real list \<Rightarrow> real list option"
  spectral_rolloff :: "real list \<Rightarrow> real list option"
  zero_crossing_rate :: "real list \<Rightarrow> real list option"
  mfcc :: "real list \<Rightarrow> real list list option"
  rms :: "real list \<Rightarrow> real list option"
  np_mean :: "real list \<Rightarrow> real"
  np_std :: "real list \<Rightarrow> real"
  np_log :: "real \<Rightarrow> real"

text \<open>\<^verbatim>\<open>_get_zero_features\<close>: a dict display of twelve keys, then the MFCC loop.\<close>

definition get_zero_features :: features where
  "get_zero_features =
     fold (\<lambda>i fs. dict_set (mfcc_key i ''_std'') 0 (dict_set (mfcc_key i ''_mean'') 0 fs))
       [0..<13]
       (dict_update []
          [(''f0_mean'', 0), (''f0_std'', 0), (''f0_range'', 0),
           (''spectral_centroid_mean'', 0), (''spectral_centroid_std'', 0),
           (''spectral_rolloff_mean'', 0),
           (''zcr_mean'', 0), (''zcr_std'', 0),
           (''rms_mean'', 0), (''rms_std'', 0),
           (''log_energy_mean'', 0), (''log_energy_std'', 0)])"

text \<open>The first inner \<^verbatim>\<open>try\<close>: fundamental frequency. Only the \<^verbatim>\<open>yin\<close> call can raise.\<close>

definition f0_zero :: "features \<Rightarrow> features" where
  "f0_zero fs = dict_set ''f0_range'' 0 (dict_set ''f0_std'' 0 (dict_set ''f0_mean'' 0 fs))"

definition f0_block :: "backend \<Rightarrow> real list \<Rightarrow> features \<Rightarrow> features" where
  "f0_block be audio fs =
     (case yin be audio of
        None \<Rightarrow> f0_zero fs
      | Some f0 \<Rightarrow>
          (let f0_valid = filter (\<lambda>x. 0 < x) f0
           in if 0 < length f0_valid
              then dict_set ''f0_range'' (Max (set f0_valid) - Min (set f0_valid))
                     (dict_set ''f0_std'' (np_std be f0_valid)
                        (dict_set ''f0_mean'' (np_mean be f0_valid) fs))
              else f0_zero fs))"

text \<open>
  The MFCC loop inside the second \<^verbatim>\<open>try\<close>: \<^verbatim>\<open>mfccs[i]\<close> raises when the matrix has
  no row \<^verbatim>\<open>i\<close>. The dict is mutated in place, so a fault leaves the keys assigned so
  far; the flag says whether the loop ran to its end.
\<close>

fun mfcc_loop :: "backend \<Rightarrow> real list list \<Rightarrow> nat list \<Rightarrow> features \<Rightarrow> features \<times> bool" where
  "mfcc_loop be mfccs [] fs = (fs, True)"
| "mfcc_loop be mfccs (i # is) fs =
     (if i < length mfccs
      then mfcc_loop be mfccs is
             (dict_set (mfcc_key i ''_std'') (np_std be (mfccs ! i))
                (dict_set (mfcc_key i ''_mean'') (np_mean be (mfccs ! i)) fs))
      else (fs, False))"

text \<open>The body of the second \<^verbatim>\<open>try\<close>, with the dict as it stands when a call raises.\<close>

definition spectral_block :: "backend \<Rightarrow> real list \<Rightarrow> features \<Rightarrow> features \<times> bool" where
  "spectral_block be audio fs =
     (case spectral_centroid be audio of
        None \<Rightarrow> (fs, False)
      | Some spectral_centroids \<Rightarrow>
          (let fs1 = dict_set ''spectral_centroid_std'' (np_std be spectral_centroids)
                       (dict_set ''spectral_centroid_mean'' (np_mean be spectral_centroids) fs)
           in case spectral_rolloff be audio of
                None \<Rightarrow> (fs1, False)
              | Some rolloff \<Rightarrow>
                  (let fs2 = dict_set ''spectral_rolloff_mean'' (np_mean be rolloff) fs1
                   in case zero_crossing_rate be audio of
                        None \<Rightarrow> (fs2, False)
                      | Some zcr \<Rightarrow>
                          (let fs3 = dict_set ''zcr_std'' (np_std be zcr)
                                       (dict_set ''zcr_mean'' (np_mean be zcr) fs2)
                           in case mfcc be audio of
                                None \<Rightarrow> (fs3, False)
                              | Some mfccs \<Rightarrow> mfcc_loop be mfccs [0..<13] fs3))))"

text \<open>The handler of the second \<^verbatim>\<open>try\<close>: fill with zeros.\<close>

definition spectral_zero :: "features \<Rightarrow> features" where
  "spectral_zero fs =
     fold (\<lambda>i fs. dict_set (mfcc_key i ''_std'') 0 (dict_set (mfcc_key i ''_mean'') 0 fs))
       [0..<13]
       (dict_update fs
          [(''spectral_centroid_mean'', 0), (''spectral_centroid_std'', 0),
           (''spectral_rolloff_mean'', 0), (''zcr_mean'', 0), (''zcr_std'', 0)])"

text \<open>The third inner \<^verbatim>\<open>try\<close>: energy. Only the \<^verbatim>\<open>rms\<close> call can raise.\<close>

definition energy_block :: "backend \<Rightarrow> real list \<Rightarrow> features \<Rightarrow> features" where
  "energy_block be audio fs =
     (case rms be audio of
        None \<Rightarrow>
          dict_update fs
            [(''rms_mean'', 0), (''rms_std'', 0),
             (''log_energy_mean'', 0), (''log_energy_std'', 0)]
      | Some rms_v \<Rightarrow>
          (let fs1 = dict_set ''rms_std'' (np_std be rms_v)
                       (dict_set ''rms_mean'' (np_mean be rms_v) fs);
               log_energy = map (\<lambda>x. np_log be (x + 1 / 10 ^ 8)) rms_v
           in dict_set ''log_energy_std'' (np_std be log_energy)
                (dict_set ''log_energy_mean'' (np_mean be log_energy) fs1)))"

text \<open>
  \<^verbatim>\<open>extract_basic_features\<close>. Every call that can raise sits in one of the three inner
  \<^verbatim>\<open>try\<close> blocks, so the outer handler is reached by no array of floats.
\<close>

definition extract_basic_features :: "backend \<Rightarrow> real list \<Rightarrow> features" where
  "extract_basic_features be audio =
     (if length audio = 0 \<or> list_all (\<lambda>x. x = 0) audio then get_zero_features
      else
        (let audio' = map (\<lambda>x. x / (Max (set (map abs audio)) + 1 / 10 ^ 8)) audio;
             fs = f0_block be audio' [];
             sp = spectral_block be audio' fs;
             fs = (if snd sp then fst sp else spectral_zero (fst sp))
         in energy_block be audio' fs))"

subsection \<open>RiskAssessment\<close>

text \<open>
  The learning library is outside the repository as well. A scaler and a forest are
  opaque objects; a method that fits one returns the object as the call left it,
  together with its result or the fact that it raised.
\<close>

record ('sc, 'md) sklearn =
  np_array :: "real list list \<Rightarrow> real list list option"
  StandardScaler :: 'sc
  fit_transform :: "'sc \<Rightarrow> real list list \<Rightarrow> 'sc \<times> real list list option"
  IsolationForest :: 'md
  fit :: "'md \<Rightarrow> real list list \<Rightarrow> 'md \<times> bool"
  decision_function :: "'md \<Rightarrow> real list list \<Rightarrow> real list option"

record ('sc, 'md) RiskAssessment =
  models :: "string \<rightharpoonup> 'md"
  scalers :: "string \<rightharpoonup> 'sc"
  feature_history :: "string \<rightharpoonup> real list list"
  contamination :: real
  min_samples :: nat

definition RiskAssessment_init :: "real \<Rightarrow> ('sc, 'md) RiskAssessment" where
  "RiskAssessment_init c =
     \<lparr>models = Map.empty, scalers = Map.empty, feature_history = Map.empty,
      contamination = c, min_samples = 10\<rparr>"

text \<open>Reading \<^verbatim>\<open>feature_history\<close>, a \<^verbatim>\<open>defaultdict(list)\<close>.\<close>

definition history_of :: "('sc, 'md) RiskAssessment \<Rightarrow> string \<Rightarrow> real list list" where
  "history_of ra patient_id =
     (case feature_history ra patient_id of None \<Rightarrow> [] | Some h \<Rightarrow> h)"

definition max_history :: nat where
  "max_history = 100"

text \<open>
  The body of the \<^verbatim>\<open>try\<close> of \<^verbatim>\<open>update_patient_model\<close> up to the anomaly score:
  \<open>None\<close> when one of the calls raised, with the objects stored so far left in place.
\<close>

definition model_call ::
  "('sc, 'md) sklearn \<Rightarrow> ('sc, 'md) RiskAssessment \<Rightarrow> string
     \<Rightarrow> ('sc, 'md) RiskAssessment \<times> real option" where
  "model_call sk ra patient_id =
     (case np_array sk (history_of ra patient_id) of
        None \<Rightarrow> (ra, None)
      | Some X \<Rightarrow>
          (let sc0 = (case scalers ra patient_id of None \<Rightarrow> StandardScaler sk | Some sc \<Rightarrow> sc);
               ft = fit_transform sk sc0 X;
               ra1 = ra\<lparr>scalers := (scalers ra)(patient_id \<mapsto> fst ft)\<rparr>
           in case snd ft of
                None \<Rightarrow> (ra1, None)
              | Some X_scaled \<Rightarrow>
                  (let md0 = (case models ra1 patient_id of
                                None \<Rightarrow> IsolationForest sk | Some md \<Rightarrow> md);
                       fitted = fit sk md0 X_scaled;
                       ra2 = ra1\<lparr>models := (models ra1)(patient_id \<mapsto> fst fitted)\<rparr>
                   in if snd fitted
                      then
                        (let latest_sample = drop (length X_scaled - 1) X_scaled
                         in case decision_function sk (fst fitted) latest_sample of
                              None \<Rightarrow> (ra2, None)
                            | Some [] \<Rightarrow> (ra2, None)
                            | Some (anomaly_score # _) \<Rightarrow> (ra2, Some anomaly_score))
                      else (ra2, None))))"

text \<open>
  The first half of \<^verbatim>\<open>update_patient_model\<close>: append the vector to the session's
  history and keep the last \<^const>\<open>max_history\<close> rows.
\<close>

definition append_history ::
  "('sc, 'md) RiskAssessment \<Rightarrow> string \<Rightarrow> real list \<Rightarrow> ('sc, 'md) RiskAssessment" where
  "append_history ra patient_id feature_vector =
     (let h = history_of ra patient_id @ [feature_vector];
          h' = (if max_history < length h then drop (length h - max_history) h else h)
      in ra\<lparr>feature_history := (feature_history ra)(patient_id \<mapsto> h')\<rparr>)"

text \<open>The conversion of the anomaly score to the risk score.\<close>

definition risk_score_of :: "real \<Rightarrow> real" where
  "risk_score_of anomaly_score = max 0 (min 1 ((0.5 - anomaly_score) / 1))"

definition update_patient_model ::
  "('sc, 'md) sklearn \<Rightarrow> ('sc, 'md) RiskAssessment \<Rightarrow> string \<Rightarrow> features
     \<Rightarrow> ('sc, 'md) RiskAssessment \<times> real \<times> string" where
  "update_patient_model sk ra patient_id fs =
     (let feature_vector = dict_values fs;
          ra1 = append_history ra patient_id feature_vector;
          n_samples = length (history_of ra1 patient_id)
      in if n_samples < min_samples ra1 then (ra1, 0, ''warming_up'')
         else
           (case model_call sk ra1 patient_id of
              (ra2, Some anomaly_score) \<Rightarrow> (ra2, risk_score_of anomaly_score, ''ok'')
            | (ra2, None) \<Rightarrow> (ra2, 0, ''error'')))"

subsection \<open>BiomarkerService\<close>

record session =
  start_time :: real
  session_frame_count :: nat
  last_risk :: real

record ('sc, 'md) BiomarkerService =
  host :: string
  port :: nat
  risk_assessment :: "('sc, 'md) RiskAssessment"
  audio_buffers :: "string \<rightharpoonup> AudioBuffer"
  active_sessions :: "string \<rightharpoonup> session"

definition BiomarkerService_init :: "string \<Rightarrow> nat \<Rightarrow> ('sc, 'md) BiomarkerService" where
  "BiomarkerService_init h p =
     \<lparr>host = h, port = p, risk_assessment = RiskAssessment_init 0.1,
      audio_buffers = Map.empty, active_sessions = Map.empty\<rparr>"

text \<open>
  An inbound record after \<^verbatim>\<open>json.loads\<close>: each key is absent (\<open>None\<close>) or carries a
  string, the timestamp a number. A key whose value is \<^verbatim>\<open>null\<close> behaves as an absent
  one in the three tests that \<^verbatim>\<open>process_audio_message\<close> makes.
\<close>

record message =
  m_type :: "string option"
  m_chainRunId :: "string option"
  m_audio :: "string option"
  m_timestamp :: "real option"

record risk_message =
  r_type :: string
  r_risk :: real
  r_status :: string
  r_n :: nat
  r_chainRunId :: string
  r_timestamp :: real

text \<open>
  What \<^verbatim>\<open>process_audio_message\<close> takes from outside the repository: the feature
  backend, the learning library, and \<^verbatim>\<open>base64.b64decode\<close>, which returns the bytes or
  raises (\<open>None\<close>).
\<close>

record ('sc, 'md) env =
  feature_backend :: backend
  learner :: "('sc, 'md) sklearn"
  b64decode :: "string \<Rightarrow> 8 word list option"

text \<open>
  \<^verbatim>\<open>process_audio_message\<close>; \<open>now\<close> is the reading of \<^verbatim>\<open>time.time()\<close>. The buffer and
  the session record are looked up before anything is changed; a session id that has a
  buffer and no session record raises \<^verbatim>\<open>KeyError\<close> there, which the outer handler turns
  into \<^verbatim>\<open>None\<close>.
\<close>

definition process_audio_message ::
  "('sc, 'md) env \<Rightarrow> real \<Rightarrow> ('sc, 'md) BiomarkerService \<Rightarrow> message
     \<Rightarrow> ('sc, 'md) BiomarkerService \<times> risk_message option" where
  "process_audio_message e now svc msg =
     (if m_type msg \<noteq> Some ''audio'' then (svc, None)
      else case m_chainRunId msg of
        None \<Rightarrow> (svc, None)
      | Some chain_run_id \<Rightarrow>
          if chain_run_id = [] then (svc, None)
          else case m_audio msg of
            None \<Rightarrow> (svc, None)
          | Some audio_b64 \<Rightarrow>
              if audio_b64 = [] then (svc, None)
              else case b64decode e audio_b64 of
                None \<Rightarrow> (svc, None)
              | Some audio_bytes \<Rightarrow>
                  (let audio_data = decode_mulaw audio_bytes
                   in if length audio_data = 0 then (svc, None)
                      else
                        (let svc1 =
                               (if audio_buffers svc chain_run_id = None
                                then svc\<lparr>audio_buffers :=
                                           (audio_buffers svc)(chain_run_id \<mapsto> AudioBuffer_new),
                                         active_sessions :=
                                           (active_sessions svc)(chain_run_id \<mapsto>
                                              \<lparr>start_time = now, session_frame_count = 0,
                                               last_risk = 0\<rparr>)\<rparr>
                                else svc)
                         in case (audio_buffers svc1 chain_run_id,
                                  active_sessions svc1 chain_run_id) of
                              (Some buf, Some sess) \<Rightarrow>
                                (let added = add_frame buf audio_data;
                                     sess1 = sess\<lparr>session_frame_count :=
                                                     session_frame_count sess + length audio_data\<rparr>
                                 in if snd added
                                    then
                                      (let audio_segment = get_buffer (fst added);
                                           fs = extract_basic_features (feature_backend e)
                                                  audio_segment;
                                           upd = update_patient_model (learner e)
                                                   (risk_assessment svc1) chain_run_id fs;
                                           risk_score = fst (snd upd);
                                           svc2 = svc1
                                             \<lparr>risk_assessment := fst upd,
                                              audio_buffers := (audio_buffers svc1)
                                                (chain_run_id \<mapsto> clear (fst added)),
                                              active_sessions := (active_sessions svc1)
                                                (chain_run_id \<mapsto>
                                                   sess1\<lparr>last_risk := risk_score\<rparr>)\<rparr>
                                       in (svc2,
                                           Some \<lparr>r_type = ''risk'', r_risk = risk_score,
                                                 r_status = snd (snd upd),
                                                 r_n = length (history_of (fst upd) chain_run_id),
                                                 r_chainRunId = chain_run_id,
                                                 r_timestamp =
                                                   (case m_timestamp msg of
                                                      None \<Rightarrow> now | Some t \<Rightarrow> t)\<rparr>))
                                    else
                                      (svc1\<lparr>audio_buffers := (audio_buffers svc1)
                                               (chain_run_id \<mapsto> fst added),
                                             active_sessions := (active_sessions svc1)
                                               (chain_run_id \<mapsto> sess1)\<rparr>,
                                       None))
                            | _ \<Rightarrow> (svc, None))))"

text \<open>
  \<^verbatim>\<open>handle_client\<close>: the loop over the frames a connection delivers before it closes.
  A frame is the record \<^verbatim>\<open>json.loads\<close> produced, or \<open>None\<close> when it raised
  \<^verbatim>\<open>JSONDecodeError\<close>, with the clock reading at its arrival. The result is the state
  of the service when the handler returns and the responses it sent. The \<^verbatim>\<open>finally\<close>
  block writes a log line and nothing else.
\<close>

fun handle_client ::
  "('sc, 'md) env \<Rightarrow> ('sc, 'md) BiomarkerService \<Rightarrow> (message option \<times> real) list
     \<Rightarrow> ('sc, 'md) BiomarkerService \<times> risk_message list" where
  "handle_client e svc [] = (svc, [])"
| "handle_client e svc ((None, now) # frames) = handle_client e svc frames"
| "handle_client e svc ((Some msg, now) # frames) =
     (let r = process_audio_message e now svc msg;
          rest = handle_client e (fst r) frames
      in case snd r of
           None \<Rightarrow> rest
         | Some response \<Rightarrow> (fst rest, response # snd rest))"

subsection \<open>Drivers\<close>

text \<open>The return values of successive \<^verbatim>\<open>add_frame\<close> calls on one buffer.\<close>

fun add_frames :: "AudioBuffer \<Rightarrow> real list list \<Rightarrow> bool list" where
  "add_frames ab [] = []"
| "add_frames ab (b # bs) = (let r = add_frame ab b in snd r # add_frames (fst r) bs)"

text \<open>
  The same with the buffer cleared after every call that returned \<^verbatim>\<open>True\<close>, which is
  how \<^verbatim>\<open>process_audio_message\<close> uses a buffer.
\<close>

fun add_frames_clearing :: "AudioBuffer \<Rightarrow> real list list \<Rightarrow> bool list" where
  "add_frames_clearing ab [] = []"
| "add_frames_clearing ab (b # bs) =
     (let r = add_frame ab b
      in snd r # add_frames_clearing (if snd r then clear (fst r) else fst r) bs)"

text \<open>Successive \<^verbatim>\<open>update_patient_model\<close> calls for one session.\<close>

fun update_all ::
  "('sc, 'md) sklearn \<Rightarrow> ('sc, 'md) RiskAssessment \<Rightarrow> string \<Rightarrow> features list
     \<Rightarrow> ('sc, 'md) RiskAssessment" where
  "update_all sk ra patient_id [] = ra"
| "update_all sk ra patient_id (fs # fss) =
     update_all sk (fst (update_patient_model sk ra patient_id fs)) patient_id fss"

subsection \<open>Concrete collaborators for the examples\<close>

text \<open>
  A feature backend whose calls all succeed and return constant arrays. On such arrays
  the standard deviation is 0, and the one value the logarithm is applied to is 1, where
  it agrees with \<open>x - 1\<close>; the mean is the mean.
\<close>

definition example_backend :: backend where
  "example_backend =
     \<lparr>yin = (\<lambda>a. Some [110]),
      spectral_centroid = (\<lambda>a. Some [1000]),
      spectral_rolloff = (\<lambda>a. Some [2000]),
      zero_crossing_rate = (\<lambda>a. Some [1 / 10]),
      mfcc = (\<lambda>a. Some (replicate 13 [1])),
      rms = (\<lambda>a. Some [1 - 1 / 10 ^ 8]),
      np_mean = (\<lambda>xs. sum_list xs / real (length xs)),
      np_std = (\<lambda>xs. 0),
      np_log = (\<lambda>x. x - 1)\<rparr>"

text \<open>
  A learner that raises in \<^verbatim>\<open>fit\<close> on a history whose entries are all zero and
  otherwise scores a row by the sum of its entries.
\<close>

definition example_learner :: "(unit, unit) sklearn" where
  "example_learner =
     \<lparr>np_array = Some,
      StandardScaler = (),
      fit_transform = (\<lambda>sc X. (sc, Some X)),
      IsolationForest = (),
      fit = (\<lambda>md X. (md, \<not> list_all (\<lambda>v. v = 0) (concat X))),
      decision_function = (\<lambda>md X. Some (map sum_list X))\<rparr>"

text \<open>
  Base64 on the payloads the examples send: 32000 characters \<open>/\<close> are 24000 bytes
  \<open>0xFF\<close>, \<open>/w==\<close> is the byte \<open>0xFF\<close>, \<open>AA==\<close> is the byte \<open>0x00\<close>, and a
  single \<open>A\<close> is rejected for its padding.
\<close>

definition example_b64decode :: "string \<Rightarrow> 8 word list option" where
  "example_b64decode s =
     (if s = replicate 32000 (CHR ''/'') then Some (replicate 24000 0xFF)
      else if s = ''/w=='' then Some [0xFF]
      else if s = ''AA=='' then Some [0x00]
      else None)"

definition example_env :: "(unit, unit) env" where
  "example_env =
     \<lparr>feature_backend = example_backend, learner = example_learner,
      b64decode = example_b64decode\<rparr>"

subsection \<open>The risk clamp as the specification words it\<close>

text \<open>\<open>clamp(v, lo, hi)\<close>, for comparison with \<^const>\<open>risk_score_of\<close>.\<close>

definition clamp_spec :: "real \<Rightarrow> real \<Rightarrow> real \<Rightarrow> real" where
  "clamp_spec v lo hi = (if v < lo then lo else if hi < v then hi else v)"

subsection \<open>The decoder as the specification words it\<close>

text \<open>
  The sample of one byte following the specification's sentence, for comparison with
  \<^const>\<open>decode_mulaw_byte\<close>: invert all bits; the sign is bit 7, the exponent bits 6 to 4,
  the mantissa bits 3 to 0; the magnitude is \<open>(mantissa << 1) + 0x84\<close> when the exponent
  is 0 and that value shifted left by \<open>exponent - 1\<close> otherwise; apply the sign; divide by
  32768.
\<close>

definition mulaw_sample_spec :: "8 word \<Rightarrow> real" where
  "mulaw_sample_spec b =
     (let w = NOT b;
          sign = bit w 7;
          exponent = unat (take_bit 3 (drop_bit 4 w));
          mantissa = unat (take_bit 4 w);
          magnitude = (if exponent = 0 then push_bit 1 mantissa + 0x84
                       else push_bit (exponent - 1) (push_bit 1 mantissa + 0x84))
      in (if sign then - real magnitude else real magnitude) / 32768)"

subsection \<open>Key orders\<close>

text \<open>
  The order in which the two functions assign their keys, read off their bodies:
  \<^verbatim>\<open>extract_basic_features\<close> assigns the pitch keys, the spectral keys with the MFCC
  keys, then the energy keys; \<^verbatim>\<open>_get_zero_features\<close> assigns the twelve keys of its
  dict display and the MFCC keys last.
\<close>

definition mfcc_keys :: "nat list \<Rightarrow> string list" where
  "mfcc_keys is = concat (map (\<lambda>i. [mfcc_key i ''_mean'', mfcc_key i ''_std'']) is)"

definition spectral_keys :: "string list" where
  "spectral_keys =
     [''spectral_centroid_mean'', ''spectral_centroid_std'', ''spectral_rolloff_mean'',
      ''zcr_mean'', ''zcr_std''] @ mfcc_keys [0..<13]"

definition zero_items :: "string list \<Rightarrow> features" where
  "zero_items ks = map (\<lambda>k. (k, 0)) ks"


definition extraction_order :: "string list" where
  "extraction_order =
     [''f0_mean'', ''f0_std'', ''f0_range''] @ spectral_keys @
     [''rms_mean'', ''rms_std'', ''log_energy_mean'', ''log_energy_std'']"

definition fallback_order :: "string list" where
  "fallback_order =
     [''f0_mean'', ''f0_std'', ''f0_range'',
      ''spectral_centroid_mean'', ''spectral_centroid_std'', ''spectral_rolloff_mean'',
      ''zcr_mean'', ''zcr_std'',
      ''rms_mean'', ''rms_std'', ''log_energy_mean'', ''log_energy_std''] @ mfcc_keys [0..<13]"

subsection \<open>Messages and values of the examples\<close>

definition audio_message :: "string \<Rightarrow> string \<Rightarrow> real option \<Rightarrow> message" where
  "audio_message cid payload ts =
     \<lparr>m_type = Some ''audio'', m_chainRunId = Some cid, m_audio = Some payload,
      m_timestamp = ts\<rparr>"

text \<open>The payload of one whole window: 24000 bytes \<open>0xFF\<close> in base64.\<close>

definition full_window_payload :: string where
  "full_window_payload = replicate 32000 (CHR ''/'')"

text \<open>The values \<^const>\<open>example_backend\<close> extracts from any window that is not silent.\<close>

definition example_vector :: "real list" where
  "example_vector = [110, 0, 0, 1000, 0, 2000, 1 / 10, 0,
     1, 0, 1, 0, 1, 0, 1, 0, 1, 0, 1, 0, 1, 0, 1, 0, 1, 0, 1, 0, 1, 0, 1, 0, 1, 0,
     99999999 / 100000000, 0, 0, 0]"

text \<open>A risk-assessment state that holds the given history rows for session \<open>s\<close>.\<close>

definition example_risk_state :: "real list list \<Rightarrow> (unit, unit) RiskAssessment" where
  "example_risk_state rows =
     \<lparr>models = Map.empty, scalers = Map.empty, feature_history = [''s'' \<mapsto> rows],
      contamination = 1 / 10, min_samples = 10\<rparr>"

text \<open>
  The service as it stands after session \<open>s\<close> has completed one window per given
  history row: the buffer is empty again and the rows are in the history.
\<close>

definition example_service :: "real list list \<Rightarrow> (unit, unit) BiomarkerService" where
  "example_service rows =
     \<lparr>host = ''127.0.0.1'', port = 9091, risk_assessment = example_risk_state rows,
      audio_buffers = [''s'' \<mapsto> AudioBuffer_new],
      active_sessions = [''s'' \<mapsto> \<lparr>start_time = 0, session_frame_count = 24000 * length rows,
                                     last_risk = 0\<rparr>]\<rparr>"

section \<open>Properties\<close>

subsection \<open>The decoder\<close>

lemma byte_invert: "uint (b::8 word) XOR 0xFF = uint (NOT b)"
proof -
  have m: "(0xFF::int) = mask 8" by (simp add: mask_eq_exp_minus_1)
  show ?thesis unfolding m
    by (rule bit_eqI) (auto simp add: bit_simps dest: bit_imp_le_length)
qed

lemma byte_mantissa: "uint (w::8 word) AND 0x0F = int (unat (take_bit 4 w))"
proof -
  have m: "(0x0F::int) = mask 4" by (simp add: mask_eq_exp_minus_1)
  have "uint w AND mask 4 = uint (take_bit 4 w)"
    by (rule bit_eqI) (auto simp add: bit_simps)
  then show ?thesis unfolding m by simp
qed

lemma byte_exponent: "drop_bit 4 (uint (w::8 word) AND 0x70) = int (unat (take_bit 3 (drop_bit 4 w)))"
proof -
  have m: "(0x70::int) = push_bit 4 (mask 3)" by (simp add: mask_eq_exp_minus_1 push_bit_eq_mult)
  have "drop_bit 4 (uint w AND push_bit 4 (mask 3)) = uint (take_bit 3 (drop_bit 4 w))"
    by (rule bit_eqI) (auto simp add: bit_simps)
  then show ?thesis unfolding m by simp
qed

lemma byte_sign: "(uint (w::8 word) AND 0x80 \<noteq> 0) = bit w 7"
proof -
  have "(uint w AND 2 ^ 7 = 0) = (\<not> bit (uint w) 7)"
    by (rule and_exp_eq_0_iff_not_bit)
  then show ?thesis by (simp add: bit_simps)
qed

lemma mantissa_le: "unat (take_bit 4 (w::8 word)) \<le> 15"
proof -
  have "unat (take_bit 4 w) = take_bit 4 (unat w)" by (simp add: unsigned_take_bit_eq)
  moreover have "take_bit 4 (unat w) < 2 ^ 4" by (rule take_bit_nat_less_exp)
  ultimately show ?thesis by simp
qed

lemma exponent_le: "unat (take_bit 3 (drop_bit 4 (w::8 word))) \<le> 7"
proof -
  have "unat (take_bit 3 (drop_bit 4 w)) = take_bit 3 (unat (drop_bit 4 w))" by (simp add: unsigned_take_bit_eq)
  moreover have "take_bit 3 (unat (drop_bit 4 w)) < 2 ^ 3" by (rule take_bit_nat_less_exp)
  ultimately show ?thesis by simp
qed

lemma decode_mulaw_byte_spec: "decode_mulaw_byte b = mulaw_sample_spec b"
proof -
  define w where "w = NOT b"
  define e where "e = unat (take_bit 3 (drop_bit 4 w))"
  define m where "m = unat (take_bit 4 w)"
  have nat_e: "nat (int e - 1) = e - 1" by simp
  have "decode_mulaw_byte b =
      real_of_int (let d = (if int e = 0 then push_bit 1 (int m) + 0x84 else push_bit (nat (int e - 1)) (push_bit 1 (int m) + 0x84)) in if bit w 7 then - d else d) / 32768"
    unfolding decode_mulaw_byte_def byte_invert Let_def MULAW_BIAS_def
      w_def[symmetric] byte_sign byte_exponent byte_mantissa e_def[symmetric] m_def[symmetric]
    by simp
  also have "\<dots> = mulaw_sample_spec b"
    unfolding mulaw_sample_spec_def Let_def w_def[symmetric] e_def[symmetric] m_def[symmetric] nat_e
    by (simp add: push_bit_eq_mult)
  finally show ?thesis .
qed

lemma magnitude_bound:
  assumes "m \<le> (15::nat)" "e \<le> (7::nat)"
  shows "(if e = 0 then push_bit 1 m + 0x84 else push_bit (e - 1) (push_bit 1 m + 0x84)) \<le> (32768::nat)"
proof -
  have a: "push_bit 1 m + 0x84 \<le> (162::nat)" using assms(1) by (simp add: push_bit_eq_mult)
  have "(2::nat) ^ (e - 1) \<le> 2 ^ 6" using assms(2) by (intro power_increasing) auto
  then have "(push_bit 1 m + 0x84) * 2 ^ (e - 1) \<le> 162 * (2::nat) ^ 6"
    using a by (rule mult_le_mono[rotated])
  then have b: "push_bit (e - 1) (push_bit 1 m + 0x84) \<le> (32768::nat)"
    by (simp add: push_bit_eq_mult)
  show ?thesis using a b by simp
qed

lemma mulaw_sample_spec_range: "- 1 \<le> mulaw_sample_spec b \<and> mulaw_sample_spec b \<le> 1"
proof -
  define mag :: nat where "mag = (let w = NOT b; exponent = unat (take_bit 3 (drop_bit 4 w));
          mantissa = unat (take_bit 4 w) in (if exponent = 0 then push_bit 1 mantissa + 0x84
                       else push_bit (exponent - 1) (push_bit 1 mantissa + 0x84)))"
  have "mag \<le> 32768" unfolding mag_def Let_def
    by (rule magnitude_bound[OF mantissa_le exponent_le])
  then have r: "real mag \<le> 32768" by simp
  have eq: "mulaw_sample_spec b = (if bit (NOT b) 7 then - real mag else real mag) / 32768"
    unfolding mulaw_sample_spec_def mag_def Let_def by simp
  show ?thesis unfolding eq using r by (cases "bit (NOT b) 7") simp_all
qed

text \<open>
  C6. \<^verbatim>\<open>decode_mulaw\<close> is a function of its argument alone. It returns one sample per
  input byte, in input order: the result has the length of the input, the empty input
  gives the empty output, and sample \<open>i\<close> is the value the specification's algorithm
  assigns to byte \<open>i\<close>, which lies between -1 and 1.
\<close>

theorem decode_mulaw_correct:
  "length (decode_mulaw bs) = length bs \<and> decode_mulaw [] = [] \<and>
   decode_mulaw bs = map mulaw_sample_spec bs \<and>
   (\<forall>i<length bs. decode_mulaw bs ! i = mulaw_sample_spec (bs ! i) \<and>
       - 1 \<le> decode_mulaw bs ! i \<and> decode_mulaw bs ! i \<le> 1)"
proof -
  have eq: "decode_mulaw bs = map mulaw_sample_spec bs" for bs
    unfolding decode_mulaw_def by (rule map_cong[OF refl]) (rule decode_mulaw_byte_spec)
  show ?thesis unfolding eq by (simp add: mulaw_sample_spec_range)
qed

theorem decode_mulaw_correct_witness:
  "length (decode_mulaw [0xFF, 0x00, 0x7F]) = 3 \<and>
   decode_mulaw [0xFF, 0x00, 0x7F] ! 1 = mulaw_sample_spec 0x00 \<and>
   decode_mulaw [0xFF, 0x00, 0x7F] ! 1 = - 10368 / 32768 \<and>
   - 1 \<le> decode_mulaw [0xFF, 0x00, 0x7F] ! 1 \<and> decode_mulaw [0xFF, 0x00, 0x7F] ! 1 \<le> 1"
proof -
  have v: "decode_mulaw [0xFF, 0x00, 0x7F] = [132 / 32768, - 10368 / 32768, - 132 / 32768]"
    by (simp add: decode_mulaw_def decode_mulaw_byte_def MULAW_BIAS_def Let_def
        push_bit_eq_mult drop_bit_eq_div)
  have i: "(1::nat) < length [0xFF, 0x00, 0x7F :: 8 word]" by simp
  from decode_mulaw_correct [of "[0xFF, 0x00, 0x7F]"] i
  have "decode_mulaw [0xFF, 0x00, 0x7F] ! 1 = mulaw_sample_spec ([0xFF, 0x00, 0x7F] ! 1) \<and>
        - 1 \<le> decode_mulaw [0xFF, 0x00, 0x7F] ! 1 \<and> decode_mulaw [0xFF, 0x00, 0x7F] ! 1 \<le> 1"
    by blast
  then show ?thesis by (simp add: v)
qed

subsection \<open>The buffer\<close>

lemma AudioBuffer_new_fields: "AudioBuffer_new = \<lparr>sample_rate = 8000, buffer_size = 24000, buffer = [], frame_count = 0\<rparr>"
  by (simp add: AudioBuffer_new_def AudioBuffer_init_def)

lemma add_frame_size [simp]: "buffer_size (fst (add_frame ab xs)) = buffer_size ab"
  by (simp add: add_frame_def Let_def)

lemma add_frame_length:
  "length (buffer (fst (add_frame ab xs))) = min (length (buffer ab) + length xs) (buffer_size ab)"
  by (simp add: add_frame_def deque_extend_def Let_def min_def del: drop_append)

lemma add_frame_ready:
  "snd (add_frame ab xs) = (buffer_size ab \<le> length (buffer ab) + length xs)"
  by (simp add: add_frame_def deque_extend_def Let_def) arith

lemma add_frame_count:
  "frame_count (fst (add_frame ab xs)) = frame_count ab + length xs"
  by (simp add: add_frame_def Let_def)

lemma map_upt_Suc: "map f [0..<Suc n] = f 0 # map (\<lambda>k. f (Suc k)) [0..<n]"
  by (simp add: upt_conv_Cons map_Suc_upt[symmetric] del: upt_Suc)

lemma add_frames_ready:
  "length (buffer ab) = min t (buffer_size ab) \<Longrightarrow>
   add_frames ab bs =
     map (\<lambda>k. buffer_size ab \<le> t + length (concat (take (Suc k) bs))) [0..<length bs]"
proof (induction bs arbitrary: ab t)
  case Nil
  show ?case by simp
next
  case (Cons b bs)
  let ?ab = "fst (add_frame ab b)"
  have l: "length (buffer ?ab) = min (t + length b) (buffer_size ?ab)"
    using Cons.prems by (simp add: add_frame_length min_def)
  have r: "snd (add_frame ab b) = (buffer_size ab \<le> t + length b)"
    using Cons.prems by (simp add: add_frame_ready min_def)
  have "add_frames ab (b # bs) = snd (add_frame ab b) # add_frames ?ab bs"
    by (simp add: Let_def)
  also have "\<dots> = (buffer_size ab \<le> t + length b) #
      map (\<lambda>k. buffer_size ab \<le> t + length b + length (concat (take (Suc k) bs))) [0..<length bs]"
    using Cons.IH[OF l] r by simp
  also have "\<dots> = map (\<lambda>k. buffer_size ab \<le> t + length (concat (take (Suc k) (b # bs))))
                      [0..<length (b # bs)]"
    by (simp add: map_upt_Suc add.assoc del: upt_Suc)
  finally show ?case .
qed

lemma add_frames_clearing_single:
  "0 < buffer_size ab \<Longrightarrow> length (buffer ab) = t \<Longrightarrow> t < buffer_size ab \<Longrightarrow>
   add_frames_clearing ab (map (\<lambda>x. [x]) xs) =
     map (\<lambda>k. buffer_size ab dvd t + Suc k) [0..<length xs]"
proof (induction xs arbitrary: ab t)
  case Nil
  show ?case by simp
next
  case (Cons x xs)
  let ?r = "add_frame ab [x]"
  let ?C = "buffer_size ab"
  have r: "snd ?r = (?C = Suc t)"
    using Cons.prems by (simp add: add_frame_ready) arith
  have d: "(?C = Suc t) = (?C dvd Suc t)"
  proof
    assume "?C = Suc t" then show "?C dvd Suc t" by simp
  next
    assume "?C dvd Suc t"
    then have "?C \<le> Suc t" by (rule dvd_imp_le) simp
    with Cons.prems show "?C = Suc t" by simp
  qed
  show ?case
  proof (cases "?C = Suc t")
    case True
    let ?ab = "clear (fst ?r)"
    have p: "0 < buffer_size ?ab" "length (buffer ?ab) = 0" "0 < buffer_size ?ab"
      using Cons.prems by (simp_all add: clear_def)
    have s: "buffer_size ?ab = ?C" by (simp add: clear_def)
    have "add_frames_clearing ab (map (\<lambda>x. [x]) (x # xs)) = True # add_frames_clearing ?ab (map (\<lambda>x. [x]) xs)"
      using r True by (simp add: Let_def)
    also have "\<dots> = True # map (\<lambda>k. ?C dvd 0 + Suc k) [0..<length xs]"
      using Cons.IH[OF p] s by simp
    also have "\<dots> = True # map (\<lambda>k. ?C dvd t + Suc (Suc k)) [0..<length xs]"
    proof -
      have "(?C dvd 0 + Suc k) = (?C dvd t + Suc (Suc k))" for k
      proof -
        have "t + Suc (Suc k) = ?C + Suc k" using True by simp
        then show ?thesis by (simp only: dvd_add_triv_left_iff add_0)
      qed
      then show ?thesis by simp
    qed
    also have "\<dots> = map (\<lambda>k. ?C dvd t + Suc k) [0..<length (x # xs)]"
      using True by (simp add: map_upt_Suc del: upt_Suc)
    finally show ?thesis .
  next
    case False
    let ?ab = "fst ?r"
    from False Cons.prems have lt: "Suc t < ?C" by simp
    have p: "0 < buffer_size ?ab" "length (buffer ?ab) = Suc t" "Suc t < buffer_size ?ab"
      using Cons.prems lt by (simp_all add: add_frame_length)
    have "add_frames_clearing ab (map (\<lambda>x. [x]) (x # xs)) = False # add_frames_clearing ?ab (map (\<lambda>x. [x]) xs)"
      using r False by (simp add: Let_def)
    also have "\<dots> = False # map (\<lambda>k. ?C dvd Suc t + Suc k) [0..<length xs]"
      using Cons.IH[OF p] by simp
    also have "\<dots> = map (\<lambda>k. ?C dvd t + Suc k) [0..<length (x # xs)]"
      using False d by (simp add: map_upt_Suc del: upt_Suc)
    finally show ?thesis .
  qed
qed

lemma dvd_step_le:
  fixes b t C :: nat
  assumes "0 < b" "b dvd C" "b dvd t" "t < C"
  shows "t + b \<le> C"
proof -
  from assms(2) obtain c where c: "C = b * c" by (auto simp: dvd_def)
  from assms(3) obtain s where s: "t = b * s" by (auto simp: dvd_def)
  from assms(1,4) c s have "s < c" by simp
  then have "Suc s \<le> c" by simp
  then have "b * Suc s \<le> b * c" by (rule mult_le_mono2)
  with c s show ?thesis by simp
qed

lemma add_frames_clearing_uniform:
  "0 < b \<Longrightarrow> b dvd buffer_size ab \<Longrightarrow> length (buffer ab) = t \<Longrightarrow> t < buffer_size ab \<Longrightarrow>
   b dvd t \<Longrightarrow> list_all (\<lambda>x. length x = b) bs \<Longrightarrow>
   add_frames_clearing ab bs =
     map (\<lambda>k. buffer_size ab dvd t + Suc k * b) [0..<length bs]"
proof (induction bs arbitrary: ab t)
  case Nil
  show ?case by simp
next
  case (Cons x bs)
  let ?r = "add_frame ab x"
  let ?C = "buffer_size ab"
  from Cons.prems have lx: "length x = b" and rest: "list_all (\<lambda>x. length x = b) bs" by simp_all
  have le: "t + b \<le> ?C"
    using Cons.prems(1,2,5,4) by (rule dvd_step_le)
  have r: "snd ?r = (?C = t + b)"
    using Cons.prems(3) le lx by (simp add: add_frame_ready)
  have d: "(?C = t + b) = (?C dvd t + b)"
  proof
    assume "?C = t + b" then show "?C dvd t + b" by simp
  next
    assume "?C dvd t + b"
    then have "?C \<le> t + b" using Cons.prems(1) by (intro dvd_imp_le) simp_all
    with le show "?C = t + b" by simp
  qed
  show ?case
  proof (cases "?C = t + b")
    case True
    let ?ab = "clear (fst ?r)"
    have s: "buffer_size ?ab = ?C" by (simp add: clear_def)
    have p: "b dvd buffer_size ?ab" "length (buffer ?ab) = 0" "0 < buffer_size ?ab" "b dvd 0"
      using Cons.prems by (simp_all add: clear_def)
    have e: "(?C dvd 0 + Suc k * b) = (?C dvd t + Suc (Suc k) * b)" for k
    proof -
      have "t + Suc (Suc k) * b = ?C + Suc k * b" using True by simp
      then show ?thesis by (simp only: dvd_add_triv_left_iff add_0)
    qed
    have "add_frames_clearing ab (x # bs) = True # add_frames_clearing ?ab bs"
      using r True by (simp add: Let_def)
    also have "\<dots> = True # map (\<lambda>k. ?C dvd 0 + Suc k * b) [0..<length bs]"
      using Cons.IH[OF Cons.prems(1) p(1,2,3,4) rest] s by simp
    also have "\<dots> = True # map (\<lambda>k. ?C dvd t + Suc (Suc k) * b) [0..<length bs]"
      using e by simp
    also have "\<dots> = map (\<lambda>k. ?C dvd t + Suc k * b) [0..<length (x # bs)]"
      using True by (simp add: map_upt_Suc del: upt_Suc)
    finally show ?thesis .
  next
    case False
    let ?ab = "fst ?r"
    from False le have lt: "t + b < ?C" by simp
    have p: "b dvd buffer_size ?ab" "length (buffer ?ab) = t + b" "t + b < buffer_size ?ab" "b dvd t + b"
      using Cons.prems lt lx by (simp_all add: add_frame_length)
    have "add_frames_clearing ab (x # bs) = False # add_frames_clearing ?ab bs"
      using r False by (simp add: Let_def)
    also have "\<dots> = False # map (\<lambda>k. ?C dvd (t + b) + Suc k * b) [0..<length bs]"
      using Cons.IH[OF Cons.prems(1) p rest] by simp
    also have "\<dots> = map (\<lambda>k. ?C dvd t + Suc k * b) [0..<length (x # bs)]"
      using False d by (simp add: map_upt_Suc add.assoc del: upt_Suc)
    finally show ?thesis .
  qed
qed


text \<open>
  C9, as amended. Starting from the empty buffer of the service (capacity 24000), the
  \<open>k\<close>-th call of \<^verbatim>\<open>add_frame\<close> returns \<^verbatim>\<open>True\<close> exactly when the samples fed so far
  number at least 24000, whatever the batches: it never fires early, and a single batch
  fires exactly when it has 24000 samples or more. With the buffer cleared after every
  full window, and the samples fed one at a time or in batches of one size that divides
  24000, the calls that return \<^verbatim>\<open>True\<close> are exactly those that complete a multiple of
  24000 samples.
\<close>

theorem add_frame_ready_by_count:
  "add_frames AudioBuffer_new bs =
     map (\<lambda>k. 24000 \<le> length (concat (take (Suc k) bs))) [0..<length bs] \<and>
   add_frames AudioBuffer_new [ys] = [24000 \<le> length ys] \<and>
   add_frames_clearing AudioBuffer_new (map (\<lambda>x. [x]) xs) =
     map (\<lambda>k. 24000 dvd Suc k) [0..<length xs] \<and>
   (0 < b \<and> b dvd 24000 \<and> list_all (\<lambda>x. length x = b) cs \<longrightarrow>
      add_frames_clearing AudioBuffer_new cs =
        map (\<lambda>k. 24000 dvd Suc k * b) [0..<length cs])"
proof -
  have a: "add_frames AudioBuffer_new bs =
     map (\<lambda>k. 24000 \<le> length (concat (take (Suc k) bs))) [0..<length bs]" for bs
    using add_frames_ready[of AudioBuffer_new 0 bs] by (simp add: AudioBuffer_new_fields)
  have b: "add_frames_clearing AudioBuffer_new (map (\<lambda>x. [x]) xs) =
     map (\<lambda>k. 24000 dvd Suc k) [0..<length xs]"
    using add_frames_clearing_single[of AudioBuffer_new 0 xs] by (simp add: AudioBuffer_new_fields)
  have c: "add_frames AudioBuffer_new [ys] = [24000 \<le> length ys]"
    unfolding a by simp
  have u: "add_frames_clearing AudioBuffer_new cs =
        map (\<lambda>k. 24000 dvd Suc k * b) [0..<length cs]"
    if "0 < b" "b dvd 24000" "list_all (\<lambda>x. length x = b) cs"
    using add_frames_clearing_uniform[of b AudioBuffer_new 0 cs] that by (simp add: AudioBuffer_new_fields)
  show ?thesis using a b c u by blast
qed

text \<open>Batches of 12000 samples with clearing: every second call completes a window.\<close>

theorem add_frame_ready_by_count_witness:
  "add_frames_clearing AudioBuffer_new
     [replicate 12000 0, replicate 12000 0, replicate 12000 0, replicate 12000 0] =
   [False, True, False, True]"
proof -
  have h: "0 < (12000::nat) \<and> (12000::nat) dvd 24000 \<and>
           list_all (\<lambda>x. length x = 12000)
             [replicate 12000 (0::real), replicate 12000 0, replicate 12000 0, replicate 12000 0]"
    by simp
  from add_frame_ready_by_count [THEN conjunct2, THEN conjunct2, THEN conjunct2, THEN mp, OF h]
  show ?thesis by (simp add: upt_rec)
qed

text \<open>
  C9 as stated fails for batches that straddle the capacity. Two batches of 16000
  samples fire at the cumulative count 32000, not 24000; with the buffer cleared after
  that, a third batch of 16000 does not fire, so 48000 samples give one full window.
\<close>

theorem add_frame_first_ready_counterexample:
  "add_frames AudioBuffer_new [replicate 16000 0, replicate 16000 0] = [False, True] \<and>
   length (replicate 16000 (0::real)) + length (replicate 16000 (0::real)) = 32000 \<and>
   add_frames_clearing AudioBuffer_new [replicate 16000 0, replicate 16000 0, replicate 16000 0]
     = [False, True, False]"
  by (simp add: AudioBuffer_new_fields add_frame_def deque_extend_def clear_def Let_def)

subsection \<open>The feature history\<close>

lemma model_call_frame:
  "feature_history (fst (model_call sk ra pid)) = feature_history ra \<and>
   min_samples (fst (model_call sk ra pid)) = min_samples ra"
  by (simp add: model_call_def Let_def split: option.split list.split)

lemma history_of_model_call [simp]:
  "history_of (fst (model_call sk ra pid)) q = history_of ra q"
  by (simp add: history_of_def model_call_frame)

lemma history_of_append_history:
  "history_of (append_history ra pid v) pid =
     drop (Suc (length (history_of ra pid)) - max_history) (history_of ra pid @ [v])"
  by (simp add: append_history_def history_of_def Let_def)

lemma history_of_append_history_other:
  "q \<noteq> pid \<Longrightarrow> history_of (append_history ra pid v) q = history_of ra q"
  by (simp add: append_history_def history_of_def Let_def)

lemma min_samples_append_history [simp]:
  "min_samples (append_history ra pid v) = min_samples ra"
  by (simp add: append_history_def Let_def)

lemma update_patient_model_history:
  "history_of (fst (update_patient_model sk ra pid fs)) pid =
     history_of (append_history ra pid (dict_values fs)) pid"
proof -
  obtain ra2 r where mc: "model_call sk (append_history ra pid (dict_values fs)) pid = (ra2, r)"
    by (cases "model_call sk (append_history ra pid (dict_values fs)) pid")
  have "history_of ra2 pid = history_of (append_history ra pid (dict_values fs)) pid"
    using history_of_model_call[of sk "append_history ra pid (dict_values fs)" pid pid] mc by simp
  then show ?thesis
    by (simp add: update_patient_model_def Let_def mc split: option.split)
qed

lemma update_patient_model_min_samples:
  "min_samples (fst (update_patient_model sk ra pid fs)) = min_samples ra"
proof -
  obtain ra2 r where mc: "model_call sk (append_history ra pid (dict_values fs)) pid = (ra2, r)"
    by (cases "model_call sk (append_history ra pid (dict_values fs)) pid")
  have "min_samples ra2 = min_samples ra"
    using model_call_frame[of sk "append_history ra pid (dict_values fs)" pid] mc by simp
  then show ?thesis
    by (simp add: update_patient_model_def Let_def mc split: option.split)
qed

lemma length_appended:
  "length (history_of (append_history ra pid v) pid) = min (Suc (length (history_of ra pid))) max_history"
  by (simp add: history_of_append_history)

lemma drop_append_step:
  assumes "length h \<le> M"
  shows "drop (length (drop (Suc (length h) - M) (h @ [v])) + k - M)
           (drop (Suc (length h) - M) (h @ [v]) @ xs) =
         drop (length h + Suc k - M) (h @ v # xs)"
proof (cases "Suc (length h) \<le> M")
  case True
  then show ?thesis by simp
next
  case False
  with assms have eq: "length h = M" by simp
  define ys where "ys = h @ v # xs"
  have s1: "Suc (length h) - M = 1" using eq by simp
  have t: "drop 1 (h @ [v]) @ xs = drop 1 ys"
    unfolding ys_def by (cases h) simp_all
  have l: "length (drop 1 (h @ [v])) = M" using eq by simp
  have "drop (length (drop 1 (h @ [v])) + k - M) (drop 1 (h @ [v]) @ xs) = drop k (drop 1 ys)"
    unfolding t l by simp
  also have "\<dots> = drop (length h + Suc k - M) ys"
    using eq by simp
  finally show ?thesis unfolding s1 ys_def .
qed

lemma update_all_history:
  "length (history_of ra pid) \<le> max_history \<Longrightarrow>
   history_of (update_all sk ra pid fss) pid =
     drop (length (history_of ra pid) + length fss - max_history)
       (history_of ra pid @ map dict_values fss)"
proof (induction fss arbitrary: ra)
  case Nil
  then show ?case by simp
next
  case (Cons fs fss)
  let ?ra = "fst (update_patient_model sk ra pid fs)"
  let ?h = "history_of ra pid"
  have h: "history_of ?ra pid = drop (Suc (length ?h) - max_history) (?h @ [dict_values fs])"
    by (simp add: update_patient_model_history history_of_append_history)
  have le: "length (history_of ?ra pid) \<le> max_history"
    unfolding h by simp
  have "history_of (update_all sk ra pid (fs # fss)) pid =
      drop (length (history_of ?ra pid) + length fss - max_history)
        (history_of ?ra pid @ map dict_values fss)"
    using Cons.IH[OF le] by simp
  also have "\<dots> = drop (length ?h + Suc (length fss) - max_history)
                     (?h @ dict_values fs # map dict_values fss)"
    unfolding h using drop_append_step[OF Cons.prems, of "dict_values fs" "length fss" "map dict_values fss"]
    by (simp only: length_map)
  finally show ?case by simp
qed

text \<open>
  C5. After every call of \<^verbatim>\<open>update_patient_model\<close> the session's history has at
  most 100 rows. Feeding any list of vectors to a session whose history is empty leaves
  the last 100 of them, in their order; for 101 vectors that is all but the first.
\<close>

theorem history_fifo_bounded:
  "length (history_of (fst (update_patient_model sk ra pid fs)) pid) \<le> 100 \<and>
   (history_of ra pid = [] \<longrightarrow>
      history_of (update_all sk ra pid fss) pid = drop (length fss - 100) (map dict_values fss) \<and>
      (length fss = 101 \<longrightarrow> history_of (update_all sk ra pid fss) pid = tl (map dict_values fss)))"
proof -
  have a: "length (history_of (fst (update_patient_model sk ra pid fs)) pid) \<le> 100"
    by (simp add: update_patient_model_history history_of_append_history max_history_def)
  have b: "history_of (update_all sk ra pid fss) pid = drop (length fss - 100) (map dict_values fss)"
    if "history_of ra pid = []"
    using update_all_history[of ra pid sk fss] that by (simp add: max_history_def)
  have c: "drop (length fss - 100) (map dict_values fss) = tl (map dict_values fss)"
    if "length fss = 101"
    using that by (simp add: drop_Suc)
  show ?thesis using a b c by simp
qed

text \<open>Vectors numbered 0 to 100 from the initial state: rows 1 to 100 remain.\<close>

theorem history_fifo_bounded_witness:
  "history_of (RiskAssessment_init 0.1 :: (unit, unit) RiskAssessment) ''s'' = [] \<and>
   length (map (\<lambda>i. [(''f0_mean'', real i)]) [0..<101]) = 101 \<and>
   history_of (update_all example_learner (RiskAssessment_init 0.1) ''s''
      (map (\<lambda>i. [(''f0_mean'', real i)]) [0..<101])) ''s'' = map (\<lambda>i. [real i]) [1..<101]"
proof -
  let ?ra = "RiskAssessment_init 0.1 :: (unit, unit) RiskAssessment"
  let ?fss = "map (\<lambda>i. [(''f0_mean'', real i)]) [0..<101]"
  have e: "history_of ?ra ''s'' = []"
    by (simp add: RiskAssessment_init_def history_of_def)
  have l: "length ?fss = 101" by simp
  have "history_of (update_all example_learner ?ra ''s'' ?fss) ''s'' = tl (map dict_values ?fss)"
    using history_fifo_bounded[of example_learner ?ra "''s''" "[]" ?fss] e l by blast
  also have "\<dots> = map (\<lambda>i. [real i]) [1..<101]"
    by (simp add: dict_values_def map_tl[symmetric] o_def del: upt_Suc)
  finally show ?thesis using e l by blast
qed

subsection \<open>Frames of the model call and of a message\<close>

lemma model_call_other:
  "q \<noteq> pid \<Longrightarrow>
   scalers (fst (model_call sk ra pid)) q = scalers ra q \<and>
   models (fst (model_call sk ra pid)) q = models ra q"
  by (simp add: model_call_def Let_def split: option.split list.split)

lemma model_call_feature_history:
  "feature_history (fst (model_call sk ra pid)) = feature_history ra"
  by (simp add: model_call_def Let_def split: option.split list.split)

lemma append_history_other:
  "scalers (append_history ra pid v) = scalers ra \<and>
   models (append_history ra pid v) = models ra \<and>
   (q \<noteq> pid \<longrightarrow> feature_history (append_history ra pid v) q = feature_history ra q)"
  by (simp add: append_history_def Let_def)

lemma update_patient_model_fst:
  "fst (update_patient_model sk ra pid fs) = append_history ra pid (dict_values fs) \<or>
   fst (update_patient_model sk ra pid fs) =
     fst (model_call sk (append_history ra pid (dict_values fs)) pid)"
  by (simp add: update_patient_model_def Let_def split: prod.split option.split)

lemma update_patient_model_other:
  assumes "q \<noteq> pid"
  shows "scalers (fst (update_patient_model sk ra pid fs)) q = scalers ra q \<and>
         models (fst (update_patient_model sk ra pid fs)) q = models ra q \<and>
         feature_history (fst (update_patient_model sk ra pid fs)) q = feature_history ra q"
  using update_patient_model_fst[of sk ra pid fs] assms
    model_call_other[of q pid sk "append_history ra pid (dict_values fs)"]
    model_call_feature_history[of sk "append_history ra pid (dict_values fs)" pid]
    append_history_other[of ra pid "dict_values fs" q]
  by auto

lemma process_other:
  assumes "m_chainRunId msg = Some A" "A \<noteq> B"
  shows "audio_buffers (fst (process_audio_message e now svc msg)) B = audio_buffers svc B \<and>
         active_sessions (fst (process_audio_message e now svc msg)) B = active_sessions svc B \<and>
         feature_history (risk_assessment (fst (process_audio_message e now svc msg))) B =
           feature_history (risk_assessment svc) B \<and>
         scalers (risk_assessment (fst (process_audio_message e now svc msg))) B =
           scalers (risk_assessment svc) B \<and>
         models (risk_assessment (fst (process_audio_message e now svc msg))) B =
           models (risk_assessment svc) B"
proof -
  from assms(2) have n: "B \<noteq> A" by simp
  note u = update_patient_model_other[OF n]
  show ?thesis using assms
    by (simp add: process_audio_message_def Let_def u split: option.split)
qed

lemma process_malformed:
  assumes "m_type msg \<noteq> Some ''audio'' \<or> m_chainRunId msg = None \<or> m_chainRunId msg = Some [] \<or>
           m_audio msg = None \<or> m_audio msg = Some [] \<or>
           (\<exists>a. m_audio msg = Some a \<and> (b64decode e a = None \<or> b64decode e a = Some []))"
  shows "process_audio_message e now svc msg = (svc, None)"
  using assms
  by (auto simp add: process_audio_message_def decode_mulaw_def split: option.split)

lemma process_None_risk:
  "snd (process_audio_message e now svc msg) = None \<Longrightarrow>
   risk_assessment (fst (process_audio_message e now svc msg)) = risk_assessment svc"
  by (simp add: process_audio_message_def Let_def split: option.split_asm if_split_asm)

subsection \<open>The risk state machine\<close>

lemma risk_score_of_clamp: "risk_score_of a = clamp_spec ((0.5 - a) / 1) 0 1"
  by (simp add: risk_score_of_def clamp_spec_def max_def min_def)

lemma risk_score_of_range: "0 \<le> risk_score_of a \<and> risk_score_of a \<le> 1"
  by (simp add: risk_score_of_def)

lemma update_patient_model_warming:
  "length (history_of (append_history ra pid (dict_values fs)) pid) < min_samples ra \<Longrightarrow>
   update_patient_model sk ra pid fs = (append_history ra pid (dict_values fs), 0, ''warming_up'')"
  by (simp add: update_patient_model_def Let_def)

lemma update_patient_model_ok:
  "\<not> length (history_of (append_history ra pid (dict_values fs)) pid) < min_samples ra \<Longrightarrow>
   snd (model_call sk (append_history ra pid (dict_values fs)) pid) = Some a \<Longrightarrow>
   snd (update_patient_model sk ra pid fs) = (risk_score_of a, ''ok'')"
  by (cases "model_call sk (append_history ra pid (dict_values fs)) pid")
    (simp add: update_patient_model_def Let_def)

lemma update_patient_model_error:
  "\<not> length (history_of (append_history ra pid (dict_values fs)) pid) < min_samples ra \<Longrightarrow>
   snd (model_call sk (append_history ra pid (dict_values fs)) pid) = None \<Longrightarrow>
   snd (update_patient_model sk ra pid fs) = (0, ''error'')"
  by (cases "model_call sk (append_history ra pid (dict_values fs)) pid")
    (simp add: update_patient_model_def Let_def)

lemma update_patient_model_status:
  "snd (snd (update_patient_model sk ra pid fs)) =
     (if length (history_of (append_history ra pid (dict_values fs)) pid) < min_samples ra
      then ''warming_up''
      else if snd (model_call sk (append_history ra pid (dict_values fs)) pid) = None
      then ''error'' else ''ok'')"
  by (auto simp add: update_patient_model_warming update_patient_model_ok update_patient_model_error)

text \<open>
  C3. With \<^verbatim>\<open>min_samples\<close> = 10 and \<open>n\<close> the history length after appending:
  \<open>n < 10\<close> gives risk 0 and status \<open>warming_up\<close> whatever the vector; \<open>n \<ge> 10\<close> with
  a model call that succeeds gives status \<open>ok\<close>; \<open>n \<ge> 10\<close> with a model call that
  raises gives risk 0 and status \<open>error\<close>. The error state is not sticky: when a call
  returned \<open>error\<close> and the model call of the next window succeeds, the next status is
  \<open>ok\<close>.
\<close>

theorem risk_state_machine:
  assumes "min_samples ra = 10"
  shows "(let ra1 = append_history ra pid (dict_values fs);
              n = length (history_of ra1 pid);
              r = update_patient_model sk ra pid fs
          in (n < 10 \<longrightarrow> snd r = (0, ''warming_up'')) \<and>
             (10 \<le> n \<and> snd (model_call sk ra1 pid) \<noteq> None \<longrightarrow> snd (snd r) = ''ok'') \<and>
             (10 \<le> n \<and> snd (model_call sk ra1 pid) = None \<longrightarrow> snd r = (0, ''error'')) \<and>
             (snd (snd r) = ''error'' \<and>
              snd (model_call sk (append_history (fst r) pid (dict_values fs')) pid) \<noteq> None \<longrightarrow>
                snd (snd (update_patient_model sk (fst r) pid fs')) = ''ok''))"
proof -
  let ?ra1 = "append_history ra pid (dict_values fs)"
  let ?n = "length (history_of ?ra1 pid)"
  let ?r = "update_patient_model sk ra pid fs"
  have w: "snd ?r = (0, ''warming_up'')" if "?n < 10"
    using that assms by (simp add: update_patient_model_warming)
  have k: "snd (snd ?r) = ''ok''" if "10 \<le> ?n" "snd (model_call sk ?ra1 pid) \<noteq> None"
    using that assms by (simp add: update_patient_model_status)
  have e: "snd ?r = (0, ''error'')" if "10 \<le> ?n" "snd (model_call sk ?ra1 pid) = None"
    using that assms by (simp add: update_patient_model_error)
  have s: "snd (snd (update_patient_model sk (fst ?r) pid fs')) = ''ok''"
    if err: "snd (snd ?r) = ''error''"
      and nxt: "snd (model_call sk (append_history (fst ?r) pid (dict_values fs')) pid) \<noteq> None"
  proof -
    have "\<not> ?n < 10" using err assms by (auto simp add: update_patient_model_status split: if_splits)
    then have "10 \<le> length (history_of (fst ?r) pid)"
      by (simp add: update_patient_model_history)
    then have "10 \<le> length (history_of (append_history (fst ?r) pid (dict_values fs')) pid)"
      by (simp add: length_appended max_history_def)
    moreover have "min_samples (fst ?r) = 10"
      using assms by (simp add: update_patient_model_min_samples)
    ultimately show ?thesis using nxt by (simp add: update_patient_model_status)
  qed
  show ?thesis unfolding Let_def using w k e s by blast
qed

text \<open>
  Eight all-zero rows and a zero vector: warming up. Nine and a zero vector: the learner
  raises, status \<open>error\<close>. The next vector is not zero: status \<open>ok\<close>.
\<close>

theorem risk_state_machine_witness:
  "snd (update_patient_model example_learner
          (example_risk_state [[0], [0], [0], [0], [0], [0], [0], [0]]) ''s'' [(''f0_mean'', 0)])
     = (0, ''warming_up'') \<and>
   snd (update_patient_model example_learner
          (example_risk_state [[0], [0], [0], [0], [0], [0], [0], [0], [0]]) ''s'' [(''f0_mean'', 0)])
     = (0, ''error'') \<and>
   snd (update_patient_model example_learner
          (fst (update_patient_model example_learner
                  (example_risk_state [[0], [0], [0], [0], [0], [0], [0], [0], [0]]) ''s''
                  [(''f0_mean'', 0)]))
          ''s'' [(''f0_mean'', 1 / 4)])
     = (1 / 4, ''ok'')"
proof -
  define ra8 where "ra8 = example_risk_state [[0], [0], [0], [0], [0], [0], [0], [0]]"
  define ra9 where "ra9 = example_risk_state [[0], [0], [0], [0], [0], [0], [0], [0], [0]]"
  define r2 where "r2 = update_patient_model example_learner ra9 ''s'' [(''f0_mean'', 0)]"
  define r3 where "r3 = update_patient_model example_learner (fst r2) ''s'' [(''f0_mean'', 1 / 4)]"
  note defs = update_patient_model_def append_history_def history_of_def max_history_def
    dict_values_def model_call_def example_learner_def risk_score_of_def Let_def
    example_risk_state_def
  have m8: "min_samples ra8 = 10" and m9: "min_samples ra9 = 10"
    by (simp_all add: ra8_def ra9_def example_risk_state_def)
  have h8: "length (history_of (append_history ra8 ''s'' (dict_values [(''f0_mean'', 0)])) ''s'') < 10"
    by (simp add: ra8_def defs)
  have h9: "10 \<le> length (history_of (append_history ra9 ''s'' (dict_values [(''f0_mean'', 0)])) ''s'')"
    by (simp add: ra9_def defs)
  have c9: "snd (model_call example_learner
              (append_history ra9 ''s'' (dict_values [(''f0_mean'', 0)])) ''s'') = None"
    by (simp add: ra9_def defs)
  from risk_state_machine [OF m8, of "''s''" "[(''f0_mean'', 0)]" example_learner] h8
  have w: "snd (update_patient_model example_learner ra8 ''s'' [(''f0_mean'', 0)]) = (0, ''warming_up'')"
    unfolding Let_def by blast
  from risk_state_machine [OF m9, of "''s''" "[(''f0_mean'', 0)]" example_learner "[(''f0_mean'', 1 / 4)]"]
  have e: "snd r2 = (0, ''error'')"
    and n: "snd (snd r2) = ''error'' \<and>
             snd (model_call example_learner
                  (append_history (fst r2) ''s'' (dict_values [(''f0_mean'', 1 / 4)])) ''s'') \<noteq> None
             \<longrightarrow> snd (snd r3) = ''ok''"
    unfolding Let_def r2_def r3_def using h9 c9 by blast+
  have f2: "fst r2 = ra9\<lparr>feature_history :=
              [''s'' \<mapsto> [[0], [0], [0], [0], [0], [0], [0], [0], [0], [0]]],
              scalers := [''s'' \<mapsto> ()], models := [''s'' \<mapsto> ()]\<rparr>"
    by (simp add: r2_def ra9_def defs)
  have c3: "snd (model_call example_learner
                  (append_history (fst r2) ''s'' (dict_values [(''f0_mean'', 1 / 4)])) ''s'') = Some (1 / 4)"
    by (simp add: f2 ra9_def defs)
  from n e c3 have s3: "snd (snd r3) = ''ok''" by simp
  have v3: "fst (snd r3) = 1 / 4"
    by (simp add: r3_def f2 ra9_def defs)
  from s3 v3 have "snd r3 = (1 / 4, ''ok'')" by (simp add: prod_eq_iff)
  with w e show ?thesis
    unfolding r3_def r2_def ra8_def ra9_def by blast
qed

subsection \<open>One whole window from the initial state\<close>

lemma decode_mulaw_byte_FF: "decode_mulaw_byte 0xFF = 33 / 8192"
  by (simp add: decode_mulaw_byte_def MULAW_BIAS_def Let_def push_bit_eq_mult drop_bit_eq_div)

lemma decode_mulaw_full_window: "decode_mulaw (replicate 24000 0xFF) = replicate 24000 (33 / 8192)"
  by (simp add: decode_mulaw_def decode_mulaw_byte_FF)

lemma add_frame_full_window: "add_frame AudioBuffer_new (replicate 24000 v) =
   (\<lparr>sample_rate = 8000, buffer_size = 24000, buffer = replicate 24000 v, frame_count = 24000\<rparr>, True)"
  by (simp add: AudioBuffer_new_fields add_frame_def deque_extend_def Let_def)

lemma example_backend_values: "v \<noteq> 0 \<Longrightarrow> dict_values (extract_basic_features example_backend (replicate 24000 v)) = example_vector"
  by (simp add: extract_basic_features_def list_all_iff f0_block_def spectral_block_def energy_block_def
     example_backend_def Let_def dict_values_def mfcc_key_def str_nat.simps upt_rec example_vector_def)

lemma first_window:
  "process_audio_message example_env 0 (BiomarkerService_init ''127.0.0.1'' 9091) (audio_message ''s'' full_window_payload (Some 7)) =
    (\<lparr>host = ''127.0.0.1'', port = 9091,
      risk_assessment = \<lparr>models = Map.empty, scalers = Map.empty,
         feature_history = [''s'' \<mapsto> [example_vector]], contamination = 1 / 10, min_samples = 10\<rparr>,
      audio_buffers = [''s'' \<mapsto> \<lparr>sample_rate = 8000, buffer_size = 24000, buffer = [], frame_count = 0\<rparr>],
      active_sessions = [''s'' \<mapsto> \<lparr>start_time = 0, session_frame_count = 24000, last_risk = 0\<rparr>]\<rparr>,
     Some \<lparr>r_type = ''risk'', r_risk = 0, r_status = ''warming_up'', r_n = 1, r_chainRunId = ''s'', r_timestamp = 7\<rparr>)"
  by (simp add: process_audio_message_def audio_message_def full_window_payload_def example_env_def example_b64decode_def
      BiomarkerService_init_def RiskAssessment_init_def decode_mulaw_full_window add_frame_full_window get_buffer_def clear_def
      update_patient_model_def append_history_def history_of_def max_history_def example_backend_values Let_def)

subsection \<open>The risk score and the history on every status\<close>

text \<open>
  C4. When the history has at least \<^verbatim>\<open>min_samples\<close> rows and the model call returns
  the score \<open>a\<close>, the result is \<open>clamp((0.5 - a) / 1, 0, 1)\<close> with status \<open>ok\<close>. The
  scores 0.5, -0.5 and 1.5 give the risks 0, 1 and 0, and every risk returned, on every
  status, lies between 0 and 1.
\<close>

theorem risk_score_affine_clamp:
  "(min_samples ra \<le> length (history_of (append_history ra pid (dict_values fs)) pid) \<and>
    snd (model_call sk (append_history ra pid (dict_values fs)) pid) = Some a \<longrightarrow>
      snd (update_patient_model sk ra pid fs) = (clamp_spec ((0.5 - a) / 1) 0 1, ''ok'')) \<and>
   risk_score_of a = clamp_spec ((0.5 - a) / 1) 0 1 \<and>
   risk_score_of 0.5 = 0 \<and> risk_score_of (- 0.5) = 1 \<and> risk_score_of 1.5 = 0 \<and>
   0 \<le> risk_score_of a \<and> risk_score_of a \<le> 1 \<and>
   0 \<le> fst (snd (update_patient_model sk ra pid fs)) \<and>
   fst (snd (update_patient_model sk ra pid fs)) \<le> 1"
proof -
  let ?ra1 = "append_history ra pid (dict_values fs)"
  have ok: "snd (update_patient_model sk ra pid fs) = (clamp_spec ((0.5 - a) / 1) 0 1, ''ok'')"
    if "min_samples ra \<le> length (history_of ?ra1 pid)" "snd (model_call sk ?ra1 pid) = Some a"
    using that update_patient_model_ok[of ra pid fs sk a] by (simp add: risk_score_of_clamp)
  have vals: "risk_score_of 0.5 = 0 \<and> risk_score_of (- 0.5) = 1 \<and> risk_score_of 1.5 = 0"
    by (simp add: risk_score_of_def)
  have rng: "0 \<le> fst (snd (update_patient_model sk ra pid fs)) \<and>
             fst (snd (update_patient_model sk ra pid fs)) \<le> 1"
    by (cases "model_call sk ?ra1 pid")
      (simp add: update_patient_model_def Let_def risk_score_of_range split: option.split)
  show ?thesis
    using ok vals rng risk_score_of_clamp[of a] risk_score_of_range[of a] by blast
qed

text \<open>Nine rows and a tenth whose score is -0.5: risk 1, status \<open>ok\<close>.\<close>

theorem risk_score_affine_clamp_witness:
  "snd (update_patient_model example_learner
          (example_risk_state [[1], [1], [1], [1], [1], [1], [1], [1], [1]])
          ''s'' [(''f0_mean'', - 1 / 2)]) = (1, ''ok'')"
proof -
  define ra0 where "ra0 = example_risk_state [[1], [1], [1], [1], [1], [1], [1], [1], [1]]"
  note defs = append_history_def history_of_def max_history_def
    dict_values_def model_call_def example_learner_def Let_def example_risk_state_def
  have h: "min_samples ra0 \<le>
           length (history_of (append_history ra0 ''s'' (dict_values [(''f0_mean'', - 1 / 2)])) ''s'')"
    by (simp add: ra0_def defs)
  have c: "snd (model_call example_learner
              (append_history ra0 ''s'' (dict_values [(''f0_mean'', - 1 / 2)])) ''s'') = Some (- 1 / 2)"
    by (simp add: ra0_def defs)
  from risk_score_affine_clamp [of ra0 "''s''" "[(''f0_mean'', - 1 / 2)]" example_learner "- 1 / 2"] h c
  have "snd (update_patient_model example_learner ra0 ''s'' [(''f0_mean'', - 1 / 2)]) =
          (clamp_spec ((0.5 - (- 1 / 2)) / 1) 0 1, ''ok'')"
    by blast
  then show ?thesis by (simp add: clamp_spec_def ra0_def)
qed

lemma process_Some:
  assumes "process_audio_message e now svc msg = (svc', Some r)"
  shows "m_chainRunId msg = Some (r_chainRunId r) \<and>
         r_n r = length (history_of (risk_assessment svc') (r_chainRunId r)) \<and>
         (\<exists>fs. risk_assessment svc' =
                 fst (update_patient_model (learner e) (risk_assessment svc) (r_chainRunId r) fs) \<and>
               r_risk r = fst (snd (update_patient_model (learner e) (risk_assessment svc)
                                      (r_chainRunId r) fs)) \<and>
               r_status r = snd (snd (update_patient_model (learner e) (risk_assessment svc)
                                      (r_chainRunId r) fs)))"
  using assms
  by (auto simp add: process_audio_message_def Let_def split: option.split_asm if_split_asm)

lemma update_patient_model_history_eq:
  "history_of (fst (update_patient_model sk ra pid fs)) pid =
     drop (Suc (length (history_of ra pid)) - 100) (history_of ra pid @ [dict_values fs])"
  by (simp add: update_patient_model_history history_of_append_history max_history_def)

lemma update_patient_model_history_length:
  "length (history_of (fst (update_patient_model sk ra pid fs)) pid) =
     min (Suc (length (history_of ra pid))) 100"
  unfolding update_patient_model_history_eq by (simp add: min_def)

text \<open>
  C10. Whatever status \<^verbatim>\<open>update_patient_model\<close> returns, the history afterwards is
  the old history with the new vector appended, cut to its last 100 rows: the vector is
  its last row and the length is the old length plus one, capped at 100. The \<open>n\<close> of
  an emitted risk record is that length, so a window whose model call raised is counted.
\<close>

theorem history_keeps_every_window:
  "history_of (fst (update_patient_model sk ra pid fs)) pid =
     drop (Suc (length (history_of ra pid)) - 100) (history_of ra pid @ [dict_values fs]) \<and>
   last (history_of (fst (update_patient_model sk ra pid fs)) pid) = dict_values fs \<and>
   length (history_of (fst (update_patient_model sk ra pid fs)) pid) =
     min (Suc (length (history_of ra pid))) 100 \<and>
   (process_audio_message e now svc msg = (svc', Some r) \<longrightarrow>
      r_n r = length (history_of (risk_assessment svc') (r_chainRunId r)) \<and>
      r_n r = min (Suc (length (history_of (risk_assessment svc) (r_chainRunId r)))) 100)"
proof -
  have b: "last (history_of (fst (update_patient_model sk ra pid fs)) pid) = dict_values fs"
    unfolding update_patient_model_history_eq by (simp add: last_drop)
  have c: "r_n r = length (history_of (risk_assessment svc') (r_chainRunId r)) \<and>
      r_n r = min (Suc (length (history_of (risk_assessment svc) (r_chainRunId r)))) 100"
    if p: "process_audio_message e now svc msg = (svc', Some r)"
  proof -
    from process_Some[OF p] obtain fs' where
      n: "r_n r = length (history_of (risk_assessment svc') (r_chainRunId r))" and
      u: "risk_assessment svc' =
            fst (update_patient_model (learner e) (risk_assessment svc) (r_chainRunId r) fs')"
      by blast
    show ?thesis unfolding n unfolding u update_patient_model_history_length by simp
  qed
  show ?thesis
    using update_patient_model_history_eq[of sk ra pid fs] b
      update_patient_model_history_length[of sk ra pid fs] c
    by blast
qed

text \<open>
  Nine zero rows and a zero vector: status \<open>error\<close>, ten rows afterwards. A whole
  window from the initial state: status \<open>warming_up\<close>, \<open>n = 1\<close>.
\<close>

theorem history_keeps_every_window_witness:
  "snd (update_patient_model example_learner
          (example_risk_state [[0], [0], [0], [0], [0], [0], [0], [0], [0]]) ''s'' [(''f0_mean'', 0)])
     = (0, ''error'') \<and>
   history_of (fst (update_patient_model example_learner
          (example_risk_state [[0], [0], [0], [0], [0], [0], [0], [0], [0]]) ''s'' [(''f0_mean'', 0)])) ''s''
     = [[0], [0], [0], [0], [0], [0], [0], [0], [0], [0]] \<and>
   map_option r_status
     (snd (process_audio_message example_env 0 (BiomarkerService_init ''127.0.0.1'' 9091)
             (audio_message ''s'' full_window_payload (Some 7)))) = Some ''warming_up'' \<and>
   map_option r_n
     (snd (process_audio_message example_env 0 (BiomarkerService_init ''127.0.0.1'' 9091)
             (audio_message ''s'' full_window_payload (Some 7)))) = Some 1"
proof -
  define ra9 where "ra9 = example_risk_state [[0], [0], [0], [0], [0], [0], [0], [0], [0]]"
  define p where "p = process_audio_message example_env 0 (BiomarkerService_init ''127.0.0.1'' 9091)
                        (audio_message ''s'' full_window_payload (Some 7))"
  note defs = update_patient_model_def append_history_def history_of_def max_history_def
    dict_values_def model_call_def example_learner_def risk_score_of_def Let_def
    example_risk_state_def
  have s1: "snd (update_patient_model example_learner ra9 ''s'' [(''f0_mean'', 0)]) = (0, ''error'')"
    by (simp add: ra9_def defs)
  have h0: "history_of ra9 ''s'' = [[0], [0], [0], [0], [0], [0], [0], [0], [0]]"
    by (simp add: ra9_def history_of_def example_risk_state_def)
  have pe: "process_audio_message example_env 0 (BiomarkerService_init ''127.0.0.1'' 9091)
              (audio_message ''s'' full_window_payload (Some 7)) = (fst p, Some (the (snd p)))"
    by (simp add: p_def first_window)
  note t = history_keeps_every_window [of example_learner ra9 "''s''" "[(''f0_mean'', 0)]"
      example_env 0 "BiomarkerService_init ''127.0.0.1'' 9091"
      "audio_message ''s'' full_window_payload (Some 7)" "fst p" "the (snd p)"]
  from t [THEN conjunct1]
  have l1: "history_of (fst (update_patient_model example_learner ra9 ''s'' [(''f0_mean'', 0)])) ''s''
      = [[0], [0], [0], [0], [0], [0], [0], [0], [0], [0]]"
    by (simp add: h0 dict_values_def)
  from t [THEN conjunct2, THEN conjunct2, THEN conjunct2, THEN mp, OF pe, THEN conjunct2]
  have n: "r_n (the (snd p)) = 1"
    by (simp add: BiomarkerService_init_def RiskAssessment_init_def history_of_def)
  have st: "map_option r_status (snd p) = Some ''warming_up''"
    by (simp add: p_def first_window)
  from n have "map_option r_n (snd p) = Some 1"
    by (simp add: p_def first_window)
  with s1 l1 st show ?thesis
    unfolding p_def ra9_def by blast
qed

subsection \<open>What a message emits\<close>

lemma process_wellformed:
  assumes "m_type msg = Some ''audio''" "m_chainRunId msg = Some cid" "cid \<noteq> []"
    "m_audio msg = Some a" "a \<noteq> []" "b64decode e a = Some bs" "decode_mulaw bs \<noteq> []"
    "audio_buffers svc cid = None \<or> active_sessions svc cid \<noteq> None"
  shows "(snd (process_audio_message e now svc msg) \<noteq> None) =
           snd (add_frame (case audio_buffers svc cid of None \<Rightarrow> AudioBuffer_new | Some b \<Rightarrow> b)
                  (decode_mulaw bs)) \<and>
         (\<not> snd (add_frame (case audio_buffers svc cid of None \<Rightarrow> AudioBuffer_new | Some b \<Rightarrow> b)
                  (decode_mulaw bs)) \<longrightarrow>
            audio_buffers (fst (process_audio_message e now svc msg)) cid =
              Some (fst (add_frame (case audio_buffers svc cid of None \<Rightarrow> AudioBuffer_new
                                    | Some b \<Rightarrow> b) (decode_mulaw bs))))"
  using assms
  by (auto simp add: process_audio_message_def Let_def split: option.split)

text \<open>
  C7. A message whose type is not \<open>audio\<close>, whose session id is absent or empty, whose
  payload is absent, empty or rejected by the base64 decoder, or whose decoded audio is
  empty, is answered by \<open>None\<close> and leaves the whole state as it was. Whenever the
  answer is \<open>None\<close> the histories, scalers and models are as before. For a message
  that passes these checks the answer is a risk record exactly when \<^verbatim>\<open>add_frame\<close>
  reports the buffer full; otherwise the session's buffer has taken the samples and no
  record is emitted.
\<close>

theorem process_audio_message_emits:
  "((m_type msg \<noteq> Some ''audio'' \<or> m_chainRunId msg = None \<or> m_chainRunId msg = Some [] \<or>
     m_audio msg = None \<or> m_audio msg = Some [] \<or>
     (\<exists>a. m_audio msg = Some a \<and>
        (b64decode e a = None \<or> (\<exists>bs. b64decode e a = Some bs \<and> decode_mulaw bs = []))))
    \<longrightarrow> process_audio_message e now svc msg = (svc, None)) \<and>
   (snd (process_audio_message e now svc msg) = None \<longrightarrow>
      risk_assessment (fst (process_audio_message e now svc msg)) = risk_assessment svc) \<and>
   (m_type msg = Some ''audio'' \<and> m_chainRunId msg = Some cid \<and> cid \<noteq> [] \<and>
    m_audio msg = Some a \<and> a \<noteq> [] \<and> b64decode e a = Some bs \<and> decode_mulaw bs \<noteq> [] \<and>
    (audio_buffers svc cid = None \<or> active_sessions svc cid \<noteq> None) \<longrightarrow>
      (let buf = (case audio_buffers svc cid of None \<Rightarrow> AudioBuffer_new | Some b \<Rightarrow> b);
           added = add_frame buf (decode_mulaw bs);
           r = process_audio_message e now svc msg
       in (snd r \<noteq> None) = snd added \<and>
          (\<not> snd added \<longrightarrow> audio_buffers (fst r) cid = Some (fst added))))"
proof -
  have m: "process_audio_message e now svc msg = (svc, None)"
    if "m_type msg \<noteq> Some ''audio'' \<or> m_chainRunId msg = None \<or> m_chainRunId msg = Some [] \<or>
     m_audio msg = None \<or> m_audio msg = Some [] \<or>
     (\<exists>a. m_audio msg = Some a \<and>
        (b64decode e a = None \<or> (\<exists>bs. b64decode e a = Some bs \<and> decode_mulaw bs = [])))"
    using that by (intro process_malformed) (auto simp add: decode_mulaw_def)
  show ?thesis
    unfolding Let_def using m process_None_risk[of e now svc msg] process_wellformed[of msg cid a e bs svc now]
    by blast
qed

lemma short_payload [simp]: "length s < 32000 \<Longrightarrow> (s = replicate 32000 c) = False"
  by auto

lemma one_byte_buffered:
  "process_audio_message example_env 0 (BiomarkerService_init ''127.0.0.1'' 9091)
     (audio_message ''s'' ''/w=='' None) =
    (\<lparr>host = ''127.0.0.1'', port = 9091,
      risk_assessment = RiskAssessment_init 0.1,
      audio_buffers = [''s'' \<mapsto> \<lparr>sample_rate = 8000, buffer_size = 24000, buffer = [33 / 8192],
                                 frame_count = 1\<rparr>],
      active_sessions = [''s'' \<mapsto> \<lparr>start_time = 0, session_frame_count = 1, last_risk = 0\<rparr>]\<rparr>,
     None)"
  by (simp add: process_audio_message_def audio_message_def example_env_def example_b64decode_def
      BiomarkerService_init_def decode_mulaw_def decode_mulaw_byte_FF AudioBuffer_new_fields add_frame_def deque_extend_def Let_def)

text \<open>
  From the initial state: a payload the decoder rejects changes nothing; one byte is
  buffered without an answer; a whole window is answered.
\<close>

theorem process_audio_message_emits_witness:
  "process_audio_message example_env 0 (BiomarkerService_init ''127.0.0.1'' 9091)
     (audio_message ''s'' ''A'' None) = (BiomarkerService_init ''127.0.0.1'' 9091, None) \<and>
   snd (process_audio_message example_env 0 (BiomarkerService_init ''127.0.0.1'' 9091)
     (audio_message ''s'' ''/w=='' None)) = None \<and>
   map_option buffer (audio_buffers (fst (process_audio_message example_env 0
     (BiomarkerService_init ''127.0.0.1'' 9091) (audio_message ''s'' ''/w=='' None))) ''s'')
     = Some [33 / 8192] \<and>
   snd (process_audio_message example_env 0 (BiomarkerService_init ''127.0.0.1'' 9091)
     (audio_message ''s'' full_window_payload None)) \<noteq> None"
proof -
  let ?svc = "BiomarkerService_init ''127.0.0.1'' 9091 :: (unit, unit) BiomarkerService"
  have b: "audio_buffers ?svc ''s'' = None"
    by (simp add: BiomarkerService_init_def)
  have bad: "m_audio (audio_message ''s'' ''A'' None) = Some ''A'' \<and>
             b64decode example_env ''A'' = None"
    by (simp add: audio_message_def example_env_def example_b64decode_def)
  note t1 = process_audio_message_emits [of "audio_message ''s'' ''A'' None" example_env 0 ?svc,
      THEN conjunct1, THEN mp]
  have m: "process_audio_message example_env 0 ?svc (audio_message ''s'' ''A'' None) = (?svc, None)"
    by (rule t1) (use bad in blast)
  have w2: "m_type (audio_message ''s'' ''/w=='' None) = Some ''audio'' \<and>
      m_chainRunId (audio_message ''s'' ''/w=='' None) = Some ''s'' \<and> ''s'' \<noteq> [] \<and>
      m_audio (audio_message ''s'' ''/w=='' None) = Some ''/w=='' \<and> ''/w=='' \<noteq> [] \<and>
      b64decode example_env ''/w=='' = Some [0xFF] \<and> decode_mulaw [0xFF] \<noteq> [] \<and>
      (audio_buffers ?svc ''s'' = None \<or> active_sessions ?svc ''s'' \<noteq> None)"
    by (simp add: audio_message_def example_env_def example_b64decode_def decode_mulaw_def b)
  note t2 = process_audio_message_emits [of "audio_message ''s'' ''/w=='' None" example_env 0 ?svc
      "''s''" "''/w==''" "[0xFF]",
      THEN conjunct2, THEN conjunct2, THEN mp, OF w2]
  have a2: "add_frame AudioBuffer_new (decode_mulaw [0xFF]) =
      (\<lparr>sample_rate = 8000, buffer_size = 24000, buffer = [33 / 8192], frame_count = 1\<rparr>, False)"
    by (simp add: decode_mulaw_def decode_mulaw_byte_FF AudioBuffer_new_fields add_frame_def deque_extend_def Let_def)
  from t2 have p2: "snd (process_audio_message example_env 0 ?svc (audio_message ''s'' ''/w=='' None)) = None"
    and p2b: "map_option buffer (audio_buffers (fst (process_audio_message example_env 0 ?svc
                (audio_message ''s'' ''/w=='' None))) ''s'') = Some [33 / 8192]"
    by (simp_all add: Let_def b a2)
  have w3: "m_type (audio_message ''s'' full_window_payload None) = Some ''audio'' \<and>
      m_chainRunId (audio_message ''s'' full_window_payload None) = Some ''s'' \<and> ''s'' \<noteq> [] \<and>
      m_audio (audio_message ''s'' full_window_payload None) = Some full_window_payload \<and>
      full_window_payload \<noteq> [] \<and>
      b64decode example_env full_window_payload = Some (replicate 24000 0xFF) \<and>
      decode_mulaw (replicate 24000 0xFF) \<noteq> [] \<and>
      (audio_buffers ?svc ''s'' = None \<or> active_sessions ?svc ''s'' \<noteq> None)"
    by (simp add: audio_message_def example_env_def example_b64decode_def full_window_payload_def
        decode_mulaw_full_window b)
  note t3 = process_audio_message_emits [of "audio_message ''s'' full_window_payload None" example_env 0 ?svc
      "''s''" full_window_payload "replicate 24000 0xFF",
      THEN conjunct2, THEN conjunct2, THEN mp, OF w3]
  from t3 have p3: "snd (process_audio_message example_env 0 ?svc
                      (audio_message ''s'' full_window_payload None)) \<noteq> None"
    by (simp add: Let_def b decode_mulaw_full_window add_frame_full_window)
  from m p2 p2b p3 show ?thesis by blast
qed



text \<open>
  C8. Processing a message of session \<open>A\<close> leaves the buffer, the session record, the
  history, the scaler and the model of every other session \<open>B\<close> as they were.
\<close>

theorem session_isolation:
  assumes "m_chainRunId msg = Some A" "A \<noteq> B"
  shows "audio_buffers (fst (process_audio_message e now svc msg)) B = audio_buffers svc B \<and>
         active_sessions (fst (process_audio_message e now svc msg)) B = active_sessions svc B \<and>
         feature_history (risk_assessment (fst (process_audio_message e now svc msg))) B =
           feature_history (risk_assessment svc) B \<and>
         scalers (risk_assessment (fst (process_audio_message e now svc msg))) B =
           scalers (risk_assessment svc) B \<and>
         models (risk_assessment (fst (process_audio_message e now svc msg))) B =
           models (risk_assessment svc) B"
  using assms by (rule process_other)

text \<open>
  Session \<open>s\<close> has completed a window; a message of session \<open>t\<close> creates the buffer
  of \<open>t\<close> and leaves what belongs to \<open>s\<close>.
\<close>

theorem session_isolation_witness:
  "audio_buffers (fst (process_audio_message example_env 1
      (fst (process_audio_message example_env 0 (BiomarkerService_init ''127.0.0.1'' 9091)
              (audio_message ''s'' full_window_payload (Some 7))))
      (audio_message ''t'' ''/w=='' None))) ''s''
     = Some \<lparr>sample_rate = 8000, buffer_size = 24000, buffer = [], frame_count = 0\<rparr> \<and>
   active_sessions (fst (process_audio_message example_env 1
      (fst (process_audio_message example_env 0 (BiomarkerService_init ''127.0.0.1'' 9091)
              (audio_message ''s'' full_window_payload (Some 7))))
      (audio_message ''t'' ''/w=='' None))) ''s''
     = Some \<lparr>start_time = 0, session_frame_count = 24000, last_risk = 0\<rparr> \<and>
   feature_history (risk_assessment (fst (process_audio_message example_env 1
      (fst (process_audio_message example_env 0 (BiomarkerService_init ''127.0.0.1'' 9091)
              (audio_message ''s'' full_window_payload (Some 7))))
      (audio_message ''t'' ''/w=='' None)))) ''s''
     = Some [example_vector] \<and>
   map_option buffer (audio_buffers (fst (process_audio_message example_env 1
      (fst (process_audio_message example_env 0 (BiomarkerService_init ''127.0.0.1'' 9091)
              (audio_message ''s'' full_window_payload (Some 7))))
      (audio_message ''t'' ''/w=='' None))) ''t'')
     = Some [33 / 8192]"
proof -
  define svc where "svc = fst (process_audio_message example_env 0
      (BiomarkerService_init ''127.0.0.1'' 9091) (audio_message ''s'' full_window_payload (Some 7)))"
  define p where "p = process_audio_message example_env 1 svc (audio_message ''t'' ''/w=='' None)"
  have v: "svc = \<lparr>host = ''127.0.0.1'', port = 9091,
      risk_assessment = \<lparr>models = Map.empty, scalers = Map.empty,
         feature_history = [''s'' \<mapsto> [example_vector]], contamination = 1 / 10, min_samples = 10\<rparr>,
      audio_buffers = [''s'' \<mapsto> \<lparr>sample_rate = 8000, buffer_size = 24000, buffer = [], frame_count = 0\<rparr>],
      active_sessions = [''s'' \<mapsto> \<lparr>start_time = 0, session_frame_count = 24000, last_risk = 0\<rparr>]\<rparr>"
    by (simp add: svc_def first_window)
  have a: "m_chainRunId (audio_message ''t'' ''/w=='' None) = Some ''t''" and n: "''t'' \<noteq> ''s''"
    by (simp_all add: audio_message_def)
  from session_isolation [OF a n, of example_env 1 svc]
  have "audio_buffers (fst p) ''s'' = audio_buffers svc ''s''"
    and "active_sessions (fst p) ''s'' = active_sessions svc ''s''"
    and "feature_history (risk_assessment (fst p)) ''s'' = feature_history (risk_assessment svc) ''s''"
    unfolding p_def by blast+
  then have s: "audio_buffers (fst p) ''s'' =
        Some \<lparr>sample_rate = 8000, buffer_size = 24000, buffer = [], frame_count = 0\<rparr>"
      "active_sessions (fst p) ''s'' =
        Some \<lparr>start_time = 0, session_frame_count = 24000, last_risk = 0\<rparr>"
      "feature_history (risk_assessment (fst p)) ''s'' = Some [example_vector]"
    by (simp_all add: v)
  have t: "map_option buffer (audio_buffers (fst p) ''t'') = Some [33 / 8192]"
    by (simp add: p_def v process_audio_message_def audio_message_def example_env_def
        example_b64decode_def decode_mulaw_def decode_mulaw_byte_FF AudioBuffer_new_fields add_frame_def deque_extend_def Let_def)
  from s t show ?thesis unfolding p_def svc_def by blast
qed


subsection \<open>What the connection handler leaves behind\<close>

lemma model_call_keeps:
  "(scalers ra q \<noteq> None \<longrightarrow> scalers (fst (model_call sk ra pid)) q \<noteq> None) \<and>
   (models ra q \<noteq> None \<longrightarrow> models (fst (model_call sk ra pid)) q \<noteq> None)"
  by (simp add: model_call_def Let_def split: option.split list.split)

lemma append_history_keeps:
  "feature_history ra q \<noteq> None \<Longrightarrow> feature_history (append_history ra pid v) q \<noteq> None"
  by (simp add: append_history_def Let_def)

lemma update_patient_model_keeps:
  "(feature_history ra q \<noteq> None \<longrightarrow>
      feature_history (fst (update_patient_model sk ra pid fs)) q \<noteq> None) \<and>
   (scalers ra q \<noteq> None \<longrightarrow> scalers (fst (update_patient_model sk ra pid fs)) q \<noteq> None) \<and>
   (models ra q \<noteq> None \<longrightarrow> models (fst (update_patient_model sk ra pid fs)) q \<noteq> None)"
  using update_patient_model_fst[of sk ra pid fs]
    model_call_keeps[of "append_history ra pid (dict_values fs)" q sk pid]
    model_call_feature_history[of sk "append_history ra pid (dict_values fs)" pid]
    append_history_keeps[of ra q pid "dict_values fs"]
    append_history_other[of ra pid "dict_values fs" q]
  by auto

lemma process_audio_message_keeps_buffers:
  "(audio_buffers svc q \<noteq> None \<longrightarrow>
      audio_buffers (fst (process_audio_message e now svc msg)) q \<noteq> None) \<and>
   (active_sessions svc q \<noteq> None \<longrightarrow>
      active_sessions (fst (process_audio_message e now svc msg)) q \<noteq> None)"
  by (auto simp add: process_audio_message_def Let_def split: option.split)

lemma process_audio_message_risk_cases:
  "risk_assessment (fst (process_audio_message e now svc msg)) = risk_assessment svc \<or>
   (\<exists>cid fs. risk_assessment (fst (process_audio_message e now svc msg)) =
      fst (update_patient_model (learner e) (risk_assessment svc) cid fs))"
  by (auto simp add: process_audio_message_def Let_def split: option.split)

lemma process_audio_message_keeps:
  "(audio_buffers svc q \<noteq> None \<longrightarrow>
      audio_buffers (fst (process_audio_message e now svc msg)) q \<noteq> None) \<and>
   (active_sessions svc q \<noteq> None \<longrightarrow>
      active_sessions (fst (process_audio_message e now svc msg)) q \<noteq> None) \<and>
   (feature_history (risk_assessment svc) q \<noteq> None \<longrightarrow>
      feature_history (risk_assessment (fst (process_audio_message e now svc msg))) q \<noteq> None) \<and>
   (scalers (risk_assessment svc) q \<noteq> None \<longrightarrow>
      scalers (risk_assessment (fst (process_audio_message e now svc msg))) q \<noteq> None) \<and>
   (models (risk_assessment svc) q \<noteq> None \<longrightarrow>
      models (risk_assessment (fst (process_audio_message e now svc msg))) q \<noteq> None)"
proof -
  from process_audio_message_risk_cases[of e now svc msg]
  have r: "(feature_history (risk_assessment svc) q \<noteq> None \<longrightarrow>
      feature_history (risk_assessment (fst (process_audio_message e now svc msg))) q \<noteq> None) \<and>
   (scalers (risk_assessment svc) q \<noteq> None \<longrightarrow>
      scalers (risk_assessment (fst (process_audio_message e now svc msg))) q \<noteq> None) \<and>
   (models (risk_assessment svc) q \<noteq> None \<longrightarrow>
      models (risk_assessment (fst (process_audio_message e now svc msg))) q \<noteq> None)"
  proof
    assume "risk_assessment (fst (process_audio_message e now svc msg)) = risk_assessment svc"
    then show ?thesis by simp
  next
    assume "\<exists>cid fs. risk_assessment (fst (process_audio_message e now svc msg)) =
      fst (update_patient_model (learner e) (risk_assessment svc) cid fs)"
    then obtain cid fs where "risk_assessment (fst (process_audio_message e now svc msg)) =
      fst (update_patient_model (learner e) (risk_assessment svc) cid fs)" by blast
    then show ?thesis
      using update_patient_model_keeps[of "risk_assessment svc" q "learner e" cid fs] by simp
  qed
  with process_audio_message_keeps_buffers[of svc q e now msg] show ?thesis by blast
qed

lemma handle_client_never_removes:
  "(audio_buffers svc q \<noteq> None \<longrightarrow> audio_buffers (fst (handle_client e svc frames)) q \<noteq> None) \<and>
   (active_sessions svc q \<noteq> None \<longrightarrow> active_sessions (fst (handle_client e svc frames)) q \<noteq> None) \<and>
   (feature_history (risk_assessment svc) q \<noteq> None \<longrightarrow>
      feature_history (risk_assessment (fst (handle_client e svc frames))) q \<noteq> None) \<and>
   (scalers (risk_assessment svc) q \<noteq> None \<longrightarrow>
      scalers (risk_assessment (fst (handle_client e svc frames))) q \<noteq> None) \<and>
   (models (risk_assessment svc) q \<noteq> None \<longrightarrow>
      models (risk_assessment (fst (handle_client e svc frames))) q \<noteq> None)"
proof (induction frames arbitrary: svc)
  case Nil
  show ?case by simp
next
  case (Cons f frames)
  obtain m now where f: "f = (m, now)" by (cases f)
  show ?case
  proof (cases m)
    case None
    with f Cons show ?thesis by simp
  next
    case (Some msg)
    have h: "fst (handle_client e svc (f # frames)) =
             fst (handle_client e (fst (process_audio_message e now svc msg)) frames)"
      using f Some by (simp add: Let_def split: option.split)
    show ?thesis
      unfolding h
      using Cons[of "fst (process_audio_message e now svc msg)"]
        process_audio_message_keeps[of svc q e now msg]
      by blast
  qed
qed



lemma example_vector_sum: "sum_list example_vector = 312409999999 / 100000000"
  by (simp add: example_vector_def)

lemma example_vector_nonzero: "\<not> list_all (\<lambda>v. v = 0) example_vector"
  by (simp add: example_vector_def)

lemma list_all_replicate: "list_all P (replicate n x) = (n = 0 \<or> P x)"
  by (induction n) auto

lemma tenth_window:
  "process_audio_message example_env 9 (example_service
       [example_vector, example_vector, example_vector, example_vector, example_vector,
        example_vector, example_vector, example_vector, example_vector])
     (audio_message ''s'' full_window_payload None) =
   (\<lparr>host = ''127.0.0.1'', port = 9091,
      risk_assessment = \<lparr>models = [''s'' \<mapsto> ()], scalers = [''s'' \<mapsto> ()],
         feature_history = [''s'' \<mapsto> [example_vector, example_vector, example_vector, example_vector, example_vector,
           example_vector, example_vector, example_vector, example_vector, example_vector]],
         contamination = 1 / 10, min_samples = 10\<rparr>,
      audio_buffers = [''s'' \<mapsto> \<lparr>sample_rate = 8000, buffer_size = 24000, buffer = [], frame_count = 0\<rparr>],
      active_sessions = [''s'' \<mapsto> \<lparr>start_time = 0, session_frame_count = 240000, last_risk = 0\<rparr>]\<rparr>,
    Some \<lparr>r_type = ''risk'', r_risk = 0, r_status = ''ok'', r_n = 10, r_chainRunId = ''s'',
          r_timestamp = 9\<rparr>)"
  by (simp add: process_audio_message_def audio_message_def full_window_payload_def example_env_def
      example_b64decode_def example_service_def example_risk_state_def decode_mulaw_full_window add_frame_full_window
      get_buffer_def clear_def update_patient_model_def append_history_def history_of_def
      max_history_def example_backend_values Let_def model_call_def example_learner_def risk_score_of_def
      example_vector_sum example_vector_nonzero)

text \<open>
  C2. The claim is that the entries of a session are removed when the handler of its
  connection returns. The handler's \<^verbatim>\<open>finally\<close> block, under the comment
  \<^verbatim>\<open>Cleanup session data\<close>, only writes a log line. A connection that delivers one
  whole window to the initial state and closes leaves the buffer, the session record and
  the history of \<open>s\<close> in the service; one that delivers the tenth window of \<open>s\<close>
  leaves its scaler and its model there as well.
\<close>

theorem handle_client_leaves_session_entries:
  "handle_client example_env (BiomarkerService_init ''127.0.0.1'' 9091)
     [(Some (audio_message ''s'' full_window_payload (Some 7)), 0)] =
   (\<lparr>host = ''127.0.0.1'', port = 9091,
      risk_assessment = \<lparr>models = Map.empty, scalers = Map.empty,
         feature_history = [''s'' \<mapsto> [example_vector]], contamination = 1 / 10, min_samples = 10\<rparr>,
      audio_buffers = [''s'' \<mapsto> \<lparr>sample_rate = 8000, buffer_size = 24000, buffer = [], frame_count = 0\<rparr>],
      active_sessions = [''s'' \<mapsto> \<lparr>start_time = 0, session_frame_count = 24000, last_risk = 0\<rparr>]\<rparr>,
    [\<lparr>r_type = ''risk'', r_risk = 0, r_status = ''warming_up'', r_n = 1, r_chainRunId = ''s'',
      r_timestamp = 7\<rparr>]) \<and>
   handle_client example_env (example_service
       [example_vector, example_vector, example_vector, example_vector, example_vector,
        example_vector, example_vector, example_vector, example_vector])
     [(Some (audio_message ''s'' full_window_payload None), 9)] =
   (\<lparr>host = ''127.0.0.1'', port = 9091,
      risk_assessment = \<lparr>models = [''s'' \<mapsto> ()], scalers = [''s'' \<mapsto> ()],
         feature_history = [''s'' \<mapsto> [example_vector, example_vector, example_vector, example_vector, example_vector,
           example_vector, example_vector, example_vector, example_vector, example_vector]],
         contamination = 1 / 10, min_samples = 10\<rparr>,
      audio_buffers = [''s'' \<mapsto> \<lparr>sample_rate = 8000, buffer_size = 24000, buffer = [], frame_count = 0\<rparr>],
      active_sessions = [''s'' \<mapsto> \<lparr>start_time = 0, session_frame_count = 240000, last_risk = 0\<rparr>]\<rparr>,
    [\<lparr>r_type = ''risk'', r_risk = 0, r_status = ''ok'', r_n = 10, r_chainRunId = ''s'',
      r_timestamp = 9\<rparr>])"
  by (simp add: first_window tenth_window)


subsection \<open>Key order of the feature dictionaries\<close>

lemma dict_keys_dict_set:
  "dict_keys (dict_set k v d) =
     (if k \<in> set (dict_keys d) then dict_keys d else dict_keys d @ [k])"
  by (induction d) (auto simp add: dict_keys_def)

lemma dict_set_cong:
  "dict_keys d = dict_keys d' \<Longrightarrow> dict_keys (dict_set k v d) = dict_keys (dict_set k v' d')"
  by (simp add: dict_keys_dict_set)

lemma dict_update_Nil [simp]: "dict_update d [] = d"
  by (simp add: dict_update_def)

lemma dict_update_Cons [simp]: "dict_update d (kv # items) = dict_update (dict_set (fst kv) (snd kv) d) items"
  by (simp add: dict_update_def)

lemma dict_update_append: "dict_update (dict_update d xs) ys = dict_update d (xs @ ys)"
  by (simp add: dict_update_def)

lemma dict_update_cong:
  "dict_keys d = dict_keys d' \<Longrightarrow> map fst items = map fst items' \<Longrightarrow>
   dict_keys (dict_update d items) = dict_keys (dict_update d' items')"
proof (induction items arbitrary: items' d d')
  case Nil
  then show ?case by simp
next
  case (Cons kv items)
  then obtain kv' rest where i: "items' = kv' # rest" "fst kv' = fst kv" "map fst items = map fst rest"
    by (cases items') auto
  have "dict_keys (dict_set (fst kv) (snd kv) d) = dict_keys (dict_set (fst kv') (snd kv') d')"
    using Cons.prems(1) i(2) by (simp add: dict_set_cong)
  from Cons.IH[OF this i(3)] show ?case by (simp add: i(1))
qed

lemma dict_update_keys_mono:
  "k \<in> set (dict_keys d) \<or> k \<in> fst ` set items \<Longrightarrow> k \<in> set (dict_keys (dict_update d items))"
proof (induction items arbitrary: d)
  case Nil
  then show ?case by simp
next
  case (Cons kv items)
  have "k \<in> set (dict_keys (dict_set (fst kv) (snd kv) d)) \<or> k \<in> fst ` set items"
    using Cons.prems by (auto simp add: dict_keys_dict_set)
  from Cons.IH[OF this] show ?case by simp
qed

lemma refill_keys:
  "map fst items = take j ks \<Longrightarrow>
   dict_keys (dict_update (dict_update d items) (zero_items ks)) =
   dict_keys (dict_update d (zero_items ks))"
proof (induction ks arbitrary: j items d)
  case Nil
  then show ?case by (simp add: zero_items_def)
next
  case (Cons k ks)
  show ?case
  proof (cases j)
    case 0
    with Cons.prems show ?thesis by simp
  next
    case (Suc j')
    with Cons.prems obtain kv rest where
      i: "items = kv # rest" "fst kv = k" "map fst rest = take j' ks"
      by (cases items) auto
    let ?d1 = "dict_set k (snd kv) d"
    let ?X = "dict_update ?d1 rest"
    have "k \<in> set (dict_keys ?X)"
      by (rule dict_update_keys_mono) (simp add: dict_keys_dict_set)
    then have "dict_keys (dict_set k 0 ?X) = dict_keys ?X"
      by (simp add: dict_keys_dict_set)
    then have "dict_keys (dict_update (dict_set k 0 ?X) (zero_items ks)) =
               dict_keys (dict_update ?X (zero_items ks))"
      by (rule dict_update_cong) simp
    also have "\<dots> = dict_keys (dict_update ?d1 (zero_items ks))"
      by (rule Cons.IH[OF i(3)])
    also have "\<dots> = dict_keys (dict_update (dict_set k 0 d) (zero_items ks))"
      by (rule dict_update_cong[OF dict_set_cong]) simp_all
    finally show ?thesis by (simp add: i zero_items_def)
  qed
qed

lemma mfcc_keys_take: "mfcc_keys (take j is) = take (2 * j) (mfcc_keys is)"
proof (induction "is" arbitrary: j)
  case Nil
  show ?case by (simp add: mfcc_keys_def)
next
  case (Cons i "is")
  show ?case
  proof (cases j)
    case 0
    then show ?thesis by (simp add: mfcc_keys_def)
  next
    case (Suc j')
    with Cons[of j'] show ?thesis by (simp add: mfcc_keys_def)
  qed
qed

lemma mfcc_loop_items:
  "\<exists>items j. fst (mfcc_loop be m is fs) = dict_update fs items \<and>
             map fst items = mfcc_keys (take j is) \<and>
             (snd (mfcc_loop be m is fs) \<longrightarrow> map fst items = mfcc_keys is)"
proof (induction "is" arbitrary: fs)
  case Nil
  have "fst (mfcc_loop be m [] fs) = dict_update fs [] \<and> map fst ([]::features) = mfcc_keys (take 0 []) \<and>
        (snd (mfcc_loop be m [] fs) \<longrightarrow> map fst ([]::features) = mfcc_keys [])"
    by (simp add: mfcc_keys_def)
  then show ?case by blast
next
  case (Cons i "is")
  show ?case
  proof (cases "i < length m")
    case True
    let ?a = "[(mfcc_key i ''_mean'', np_mean be (m ! i)), (mfcc_key i ''_std'', np_std be (m ! i))]"
    from Cons[of "dict_update fs ?a"] obtain items j where
      r: "fst (mfcc_loop be m is (dict_update fs ?a)) = dict_update (dict_update fs ?a) items"
         "map fst items = mfcc_keys (take j is)"
         "snd (mfcc_loop be m is (dict_update fs ?a)) \<longrightarrow> map fst items = mfcc_keys is"
      by blast
    have "fst (mfcc_loop be m (i # is) fs) = dict_update fs (?a @ items) \<and>
          map fst (?a @ items) = mfcc_keys (take (Suc j) (i # is)) \<and>
          (snd (mfcc_loop be m (i # is) fs) \<longrightarrow> map fst (?a @ items) = mfcc_keys (i # is))"
      using True r by (simp add: mfcc_keys_def dict_update_append[symmetric])
    then show ?thesis by blast
  next
    case False
    then have "fst (mfcc_loop be m (i # is) fs) = dict_update fs [] \<and>
          map fst ([]::features) = mfcc_keys (take 0 (i # is)) \<and>
          (snd (mfcc_loop be m (i # is) fs) \<longrightarrow> map fst ([]::features) = mfcc_keys (i # is))"
      by (simp add: mfcc_keys_def)
    then show ?thesis by blast
  qed
qed


lemma take_past_five:
  "take (5 + n) (a # b # c # d # e # xs) = a # b # c # d # e # take n xs"
  by (simp add: eval_nat_numeral)

lemma spectral_block_items:
  "\<exists>items j. fst (spectral_block be a fs) = dict_update fs items \<and>
             map fst items = take j spectral_keys \<and>
             (snd (spectral_block be a fs) \<longrightarrow> map fst items = spectral_keys)"
proof (cases "spectral_centroid be a")
  case None
  then have "fst (spectral_block be a fs) = dict_update fs [] \<and>
             map fst ([]::features) = take 0 spectral_keys \<and>
             (snd (spectral_block be a fs) \<longrightarrow> map fst ([]::features) = spectral_keys)"
    by (simp add: spectral_block_def)
  then show ?thesis by blast
next
  case c: (Some c)
  let ?i1 = "[(''spectral_centroid_mean'', np_mean be c), (''spectral_centroid_std'', np_std be c)]"
  show ?thesis
  proof (cases "spectral_rolloff be a")
    case None
    then have "fst (spectral_block be a fs) = dict_update fs ?i1 \<and>
               map fst ?i1 = take 2 spectral_keys \<and>
               (snd (spectral_block be a fs) \<longrightarrow> map fst ?i1 = spectral_keys)"
      using c by (simp add: spectral_block_def spectral_keys_def)
    then show ?thesis by blast
  next
    case r: (Some r)
    let ?i2 = "?i1 @ [(''spectral_rolloff_mean'', np_mean be r)]"
    show ?thesis
    proof (cases "zero_crossing_rate be a")
      case None
      then have "fst (spectral_block be a fs) = dict_update fs ?i2 \<and>
                 map fst ?i2 = take 3 spectral_keys \<and>
                 (snd (spectral_block be a fs) \<longrightarrow> map fst ?i2 = spectral_keys)"
        using c r by (simp add: spectral_block_def spectral_keys_def)
      then show ?thesis by blast
    next
      case z: (Some z)
      let ?i3 = "?i2 @ [(''zcr_mean'', np_mean be z), (''zcr_std'', np_std be z)]"
      show ?thesis
      proof (cases "mfcc be a")
        case None
        then have "fst (spectral_block be a fs) = dict_update fs ?i3 \<and>
                   map fst ?i3 = take 5 spectral_keys \<and>
                   (snd (spectral_block be a fs) \<longrightarrow> map fst ?i3 = spectral_keys)"
          using c r z by (simp add: spectral_block_def spectral_keys_def)
        then show ?thesis by blast
      next
        case m: (Some m)
        from mfcc_loop_items[of be m "[0..<13]" "dict_update fs ?i3"] obtain items j where
          l: "fst (mfcc_loop be m [0..<13] (dict_update fs ?i3)) = dict_update (dict_update fs ?i3) items"
             "map fst items = mfcc_keys (take j [0..<13])"
             "snd (mfcc_loop be m [0..<13] (dict_update fs ?i3)) \<longrightarrow> map fst items = mfcc_keys [0..<13]"
          by blast
        have b: "spectral_block be a fs = mfcc_loop be m [0..<13] (dict_update fs ?i3)"
          using c r z m by (simp add: spectral_block_def)
        have k: "map fst (?i3 @ items) = take (5 + 2 * j) spectral_keys"
          using l(2) by (simp add: spectral_keys_def mfcc_keys_take take_past_five)
        have "fst (spectral_block be a fs) = dict_update fs (?i3 @ items) \<and>
              map fst (?i3 @ items) = take (5 + 2 * j) spectral_keys \<and>
              (snd (spectral_block be a fs) \<longrightarrow> map fst (?i3 @ items) = spectral_keys)"
          unfolding b using l k by (simp add: dict_update_append[symmetric] spectral_keys_def)
        then show ?thesis by blast
      qed
    qed
  qed
qed

lemma spectral_zero_eq: "spectral_zero d = dict_update d (zero_items spectral_keys)"
  by (simp add: spectral_zero_def zero_items_def spectral_keys_def mfcc_keys_def upt_rec)

lemma spectral_part_keys:
  "dict_keys (if snd (spectral_block be a fs) then fst (spectral_block be a fs)
              else spectral_zero (fst (spectral_block be a fs))) =
   dict_keys (dict_update fs (zero_items spectral_keys))"
proof -
  from spectral_block_items[of be a fs] obtain items j where
    i: "fst (spectral_block be a fs) = dict_update fs items"
       "map fst items = take j spectral_keys"
       "snd (spectral_block be a fs) \<longrightarrow> map fst items = spectral_keys"
    by blast
  show ?thesis
  proof (cases "snd (spectral_block be a fs)")
    case True
    with i(3) have "map fst items = map fst (zero_items spectral_keys)"
      by (simp add: zero_items_def o_def)
    then have "dict_keys (dict_update fs items) = dict_keys (dict_update fs (zero_items spectral_keys))"
      by (rule dict_update_cong[OF refl])
    with True i(1) show ?thesis by simp
  next
    case False
    then show ?thesis
      by (simp add: spectral_zero_eq i(1) refill_keys[OF i(2)])
  qed
qed

lemma dict_keys_Nil: "dict_keys [] = []"
  by (simp add: dict_keys_def)

lemma f0_block_keys: "dict_keys (f0_block be audio []) = [''f0_mean'', ''f0_std'', ''f0_range'']"
  by (simp add: f0_block_def f0_zero_def Let_def dict_keys_def split: option.split)

lemma energy_block_keys:
  assumes "dict_keys fs = ks"
    "''rms_mean'' \<notin> set ks" "''rms_std'' \<notin> set ks"
    "''log_energy_mean'' \<notin> set ks" "''log_energy_std'' \<notin> set ks"
  shows "dict_keys (energy_block be audio fs) =
           ks @ [''rms_mean'', ''rms_std'', ''log_energy_mean'', ''log_energy_std'']"
  using assms
  by (simp add: energy_block_def Let_def dict_keys_dict_set split: option.split)

lemma spectral_keys_eval:
  "spectral_keys = [''spectral_centroid_mean'', ''spectral_centroid_std'', ''spectral_rolloff_mean'',
     ''zcr_mean'', ''zcr_std'',
     ''mfcc_0_mean'', ''mfcc_0_std'', ''mfcc_1_mean'', ''mfcc_1_std'', ''mfcc_2_mean'', ''mfcc_2_std'',
     ''mfcc_3_mean'', ''mfcc_3_std'', ''mfcc_4_mean'', ''mfcc_4_std'', ''mfcc_5_mean'', ''mfcc_5_std'',
     ''mfcc_6_mean'', ''mfcc_6_std'', ''mfcc_7_mean'', ''mfcc_7_std'', ''mfcc_8_mean'', ''mfcc_8_std'',
     ''mfcc_9_mean'', ''mfcc_9_std'', ''mfcc_10_mean'', ''mfcc_10_std'', ''mfcc_11_mean'', ''mfcc_11_std'',
     ''mfcc_12_mean'', ''mfcc_12_std'']"
  by (simp add: spectral_keys_def mfcc_keys_def mfcc_key_def str_nat.simps upt_rec)

lemma after_spectral_keys:
  assumes "dict_keys fs = [''f0_mean'', ''f0_std'', ''f0_range'']"
  shows "dict_keys (dict_update fs (zero_items spectral_keys)) =
           [''f0_mean'', ''f0_std'', ''f0_range''] @ spectral_keys"
proof -
  have "dict_keys (dict_update fs (zero_items spectral_keys)) =
        dict_keys (dict_update (zero_items [''f0_mean'', ''f0_std'', ''f0_range''])
                     (zero_items spectral_keys))"
    using assms by (intro dict_update_cong) (simp_all add: dict_keys_def zero_items_def)
  also have "\<dots> = [''f0_mean'', ''f0_std'', ''f0_range''] @ spectral_keys"
    by (simp add: spectral_keys_eval zero_items_def dict_keys_def)
  finally show ?thesis .
qed

text \<open>
  Whatever the backend returns or raises, a window that passes the first guard of
  \<^verbatim>\<open>extract_basic_features\<close> comes back with its keys in the extraction order.
\<close>

lemma extract_basic_features_keys:
  assumes "audio \<noteq> []" "\<not> list_all (\<lambda>x. x = 0) audio"
  shows "dict_keys (extract_basic_features be audio) = extraction_order"
proof -
  define a where "a = map (\<lambda>x. x / (Max (set (map abs audio)) + 1 / 10 ^ 8)) audio"
  define fs where "fs = f0_block be a []"
  define fs2 where "fs2 = (if snd (spectral_block be a fs) then fst (spectral_block be a fs)
              else spectral_zero (fst (spectral_block be a fs)))"
  have e: "extract_basic_features be audio = energy_block be a fs2"
    using assms by (simp add: extract_basic_features_def Let_def a_def fs_def fs2_def)
  have k2: "dict_keys fs2 = [''f0_mean'', ''f0_std'', ''f0_range''] @ spectral_keys"
    unfolding fs2_def spectral_part_keys
    by (rule after_spectral_keys) (simp add: fs_def f0_block_keys)
  have n: "''rms_mean'' \<notin> set ([''f0_mean'', ''f0_std'', ''f0_range''] @ spectral_keys)"
    "''rms_std'' \<notin> set ([''f0_mean'', ''f0_std'', ''f0_range''] @ spectral_keys)"
    "''log_energy_mean'' \<notin> set ([''f0_mean'', ''f0_std'', ''f0_range''] @ spectral_keys)"
    "''log_energy_std'' \<notin> set ([''f0_mean'', ''f0_std'', ''f0_range''] @ spectral_keys)"
    by (simp_all add: spectral_keys_eval)
  show ?thesis
    unfolding e extraction_order_def using energy_block_keys[OF k2 n, of be a] by simp
qed

lemma get_zero_features_keys: "dict_keys get_zero_features = fallback_order"
  by (simp add: get_zero_features_def fallback_order_def dict_keys_def mfcc_keys_def mfcc_key_def
      str_nat.simps upt_rec)

text \<open>
  C1. The claim is that the fallback vector of \<^verbatim>\<open>_get_zero_features\<close> presents its
  features in the order of a successful extraction. Both dictionaries have 38 keys, but
  the extraction puts the MFCC keys before the energy keys and the fallback puts them
  last: position 8 is \<open>mfcc_0_mean\<close> in the one and \<open>rms_mean\<close> in the other. The
  values of the fallback are all 0.
\<close>

theorem feature_key_orders_differ:
  "dict_keys (extract_basic_features example_backend (replicate 24000 (33 / 8192))) = extraction_order \<and>
   dict_keys (extract_basic_features example_backend (replicate 24000 0)) = fallback_order \<and>
   dict_keys (extract_basic_features example_backend []) = fallback_order \<and>
   length extraction_order = 38 \<and> length fallback_order = 38 \<and>
   extraction_order ! 8 = ''mfcc_0_mean'' \<and> fallback_order ! 8 = ''rms_mean'' \<and>
   extraction_order \<noteq> fallback_order \<and>
   dict_values (extract_basic_features example_backend (replicate 24000 0)) = replicate 38 0"
proof -
  have a: "dict_keys (extract_basic_features example_backend (replicate 24000 (33 / 8192))) =
           extraction_order"
    by (rule extract_basic_features_keys [of "replicate 24000 (33 / 8192)" example_backend])
      (simp_all add: list_all_replicate)
  have z: "extract_basic_features be (replicate 24000 0) = get_zero_features"
      "extract_basic_features be [] = get_zero_features" for be
    by (simp_all add: extract_basic_features_def list_all_replicate)
  have e: "extraction_order ! 8 = ''mfcc_0_mean''" "length extraction_order = 38"
    by (simp_all add: extraction_order_def spectral_keys_eval)
  have f: "fallback_order ! 8 = ''rms_mean''" "length fallback_order = 38"
    by (simp_all add: fallback_order_def mfcc_keys_def upt_rec)
  have r: "replicate 38 (0::real) =
      [0, 0, 0, 0, 0, 0, 0, 0, 0, 0, 0, 0, 0, 0, 0, 0, 0, 0, 0,
       0, 0, 0, 0, 0, 0, 0, 0, 0, 0, 0, 0, 0, 0, 0, 0, 0, 0, 0]"
    by (simp add: eval_nat_numeral)
  have v: "dict_values get_zero_features = replicate 38 0"
    unfolding r
    by (simp add: get_zero_features_def dict_values_def mfcc_key_def str_nat.simps upt_rec)
  from e(1) f(1) have "extraction_order \<noteq> fallback_order" by auto
  with a z e f v show ?thesis by (simp add: get_zero_features_keys)
qed

end
